theory Spec2Isabelle
  imports Complex_Main "HOL-Library.Product_Lexorder"
begin

section \<open>Python values, exceptions and indexing\<close>

text \<open>
  The solver (\<^verbatim>\<open>solver_tools.py\<close>) is Python 2 code over numpy arrays. Floats are
  modelled as \<^typ>\<open>real\<close>, Python ints as \<^typ>\<open>int\<close>, a 2D array as a list of
  rows, a move symbol as a \<^typ>\<open>string\<close>. Every exception the code can raise is a
  value \<open>Inl e\<close> of the result type.
\<close>

datatype py_error =
  IndexError | NameError | KeyError | ValueError | TypeError | ZeroDivisionError
  | UnboundLocalError

type_synonym 'a result = "py_error + 'a"

definition bind_e :: "'a result \<Rightarrow> ('a \<Rightarrow> 'b result) \<Rightarrow> 'b result" where
  "bind_e m f = (case m of Inl e \<Rightarrow> Inl e | Inr x \<Rightarrow> f x)"

text \<open>\<^verbatim>\<open>[f(x) for x in xs]\<close> where \<^verbatim>\<open>f\<close> may raise: the first exception wins.\<close>

fun mapM_e :: "('a \<Rightarrow> 'b result) \<Rightarrow> 'a list \<Rightarrow> 'b list result" where
  "mapM_e f [] = Inr []"
| "mapM_e f (x # xs) = bind_e (f x) (\<lambda>y. bind_e (mapM_e f xs) (\<lambda>ys. Inr (y # ys)))"

text \<open>\<^verbatim>\<open>a and b\<close> with short-circuit evaluation: \<^verbatim>\<open>b\<close> is not evaluated when
  \<^verbatim>\<open>a\<close> is false.\<close>

definition and_e :: "bool result \<Rightarrow> bool result \<Rightarrow> bool result" where
  "and_e a b = bind_e a (\<lambda>x. if x then b else Inr False)"

text \<open>\<^verbatim>\<open>xs[i]\<close>: a negative index counts from the end, an index out of range raises
  IndexError.\<close>

definition py_index :: "'a list \<Rightarrow> int \<Rightarrow> nat result" where
  "py_index xs i =
     (if 0 \<le> i \<and> i < int (length xs) then Inr (nat i)
      else if i < 0 \<and> - int (length xs) \<le> i then Inr (nat (int (length xs) + i))
      else Inl IndexError)"

definition py_get :: "'a list \<Rightarrow> int \<Rightarrow> 'a result" where
  "py_get xs i = bind_e (py_index xs i) (\<lambda>j. Inr (xs ! j))"

text \<open>\<^verbatim>\<open>g[r][c]\<close> on a 2D array.\<close>

definition cell :: "'a list list \<Rightarrow> int \<Rightarrow> int \<Rightarrow> 'a result" where
  "cell g r c = bind_e (py_get g r) (\<lambda>row. py_get row c)"

text \<open>\<^verbatim>\<open>g[r][c] = v\<close> on a 2D array.\<close>

definition cell_set :: "'a list list \<Rightarrow> int \<Rightarrow> int \<Rightarrow> 'a \<Rightarrow> 'a list list result" where
  "cell_set g r c v =
     bind_e (py_index g r) (\<lambda>j.
     bind_e (py_index (g ! j) c) (\<lambda>k.
     Inr (g[j := (g ! j)[k := v]])))"

text \<open>\<^verbatim>\<open>a.shape\<close> of a 2D array (an array without rows is given zero columns).\<close>

definition shape0 :: "'a list list \<Rightarrow> int" where
  "shape0 g = int (length g)"

definition shape1 :: "'a list list \<Rightarrow> int" where
  "shape1 g = (case g of [] \<Rightarrow> 0 | r # _ \<Rightarrow> int (length r))"


section \<open>Grid connectivity: \<^verbatim>\<open>getNeighbors\<close>\<close>

text \<open>The test \<^verbatim>\<open>env[r][c] != obstacleFlag\<close>.\<close>

definition free_at :: "int list list \<Rightarrow> int \<Rightarrow> int \<Rightarrow> int \<Rightarrow> bool result" where
  "free_at env r c obstacleFlag = bind_e (cell env r c) (\<lambda>x. Inr (x \<noteq> obstacleFlag))"

text \<open>One block \<^verbatim>\<open>if guard: if env[r][c] != obstacleFlag: ...\<close>: the array is read only
  when the guard holds; the result tells whether the block's body ran.\<close>

definition guarded :: "bool \<Rightarrow> bool result \<Rightarrow> bool result" where
  "guarded g chk = (if g then chk else Inr False)"

definition entry :: "bool \<Rightarrow> int \<times> int \<times> string \<Rightarrow> (int \<times> int \<times> string) list" where
  "entry ok b = (if ok then [b] else [])"

text \<open>
  The sixteen blocks of \<^verbatim>\<open>getNeighbors\<close> in source order. Each block's flag says whether
  its \<^verbatim>\<open>B.append\<close> ran; the list \<^verbatim>\<open>B\<close> is the appended entries in block order.
\<close>

definition getNeighbors ::
  "int \<times> int \<Rightarrow> int \<Rightarrow> int \<Rightarrow> int list list \<Rightarrow> int \<Rightarrow> (int \<times> int \<times> string) list result" where
  "getNeighbors i m n env obstacleFlag =
    (let r = fst i; c = snd i in
     bind_e (guarded (r - 1 \<ge> 0) (free_at env (r - 1) c obstacleFlag)) (\<lambda>upAllowed.
     bind_e (guarded (r + 1 < m) (free_at env (r + 1) c obstacleFlag)) (\<lambda>downAllowed.
     bind_e (guarded (c - 1 \<ge> 0) (free_at env r (c - 1) obstacleFlag)) (\<lambda>leftAllowed.
     bind_e (guarded (c + 1 < n) (free_at env r (c + 1) obstacleFlag)) (\<lambda>rightAllowed.
     bind_e (guarded (r - 1 \<ge> 0 \<and> c - 1 \<ge> 0) (free_at env (r - 1) (c - 1) obstacleFlag)) (\<lambda>upleftAllowed.
     bind_e (guarded (r - 1 \<ge> 0 \<and> c + 1 < n) (free_at env (r - 1) (c + 1) obstacleFlag)) (\<lambda>uprightAllowed.
     bind_e (guarded (r + 1 < m \<and> c - 1 \<ge> 0) (free_at env (r + 1) (c - 1) obstacleFlag)) (\<lambda>downleftAllowed.
     bind_e (guarded (r + 1 < m \<and> c + 1 < n) (free_at env (r + 1) (c + 1) obstacleFlag)) (\<lambda>downrightAllowed.
     bind_e (guarded (r - 2 \<ge> 0 \<and> c - 1 \<ge> 0 \<and> upAllowed \<and> upleftAllowed \<and> leftAllowed)
               (free_at env (r - 2) (c - 1) obstacleFlag)) (\<lambda>mv_m.
     bind_e (guarded (r - 2 \<ge> 0 \<and> c + 1 < n \<and> upAllowed \<and> uprightAllowed \<and> rightAllowed)
               (free_at env (r - 2) (c + 1) obstacleFlag)) (\<lambda>mv_n.
     bind_e (guarded (r - 1 \<ge> 0 \<and> c - 2 \<ge> 0 \<and> upAllowed \<and> upleftAllowed \<and> leftAllowed)
               (free_at env (r - 1) (c - 2) obstacleFlag)) (\<lambda>mv_o.
     bind_e (guarded (r - 1 \<ge> 0 \<and> c + 2 < n \<and> upAllowed \<and> uprightAllowed \<and> rightAllowed)
               (free_at env (r - 1) (c + 2) obstacleFlag)) (\<lambda>mv_p.
     bind_e (guarded (r + 2 < m \<and> c - 1 \<ge> 0 \<and> downAllowed \<and> downleftAllowed \<and> leftAllowed)
               (free_at env (r + 2) (c - 1) obstacleFlag)) (\<lambda>mv_w.
     bind_e (guarded (r + 2 < m \<and> c + 1 < n \<and> downAllowed \<and> downrightAllowed \<and> rightAllowed)
               (free_at env (r + 2) (c + 1) obstacleFlag)) (\<lambda>mv_x.
     bind_e (guarded (r + 1 < m \<and> c - 2 \<ge> 0 \<and> downAllowed \<and> downleftAllowed \<and> leftAllowed)
               (free_at env (r + 1) (c - 2) obstacleFlag)) (\<lambda>mv_y.
     bind_e (guarded (r + 1 < m \<and> c + 2 < n \<and> downAllowed \<and> downrightAllowed \<and> rightAllowed)
               (free_at env (r + 1) (c + 2) obstacleFlag)) (\<lambda>mv_z.
     Inr (entry upAllowed (r - 1, c, ''^'')
        @ entry downAllowed (r + 1, c, ''v'')
        @ entry leftAllowed (r, c - 1, ''<'')
        @ entry rightAllowed (r, c + 1, ''>'')
        @ entry upleftAllowed (r - 1, c - 1, ''a'')
        @ entry uprightAllowed (r - 1, c + 1, ''b'')
        @ entry downleftAllowed (r + 1, c - 1, ''c'')
        @ entry downrightAllowed (r + 1, c + 1, ''d'')
        @ entry mv_m (r - 2, c - 1, ''m'')
        @ entry mv_n (r - 2, c + 1, ''n'')
        @ entry mv_o (r - 1, c - 2, ''o'')
        @ entry mv_p (r - 1, c + 2, ''p'')
        @ entry mv_w (r + 2, c - 1, ''w'')
        @ entry mv_x (r + 2, c + 1, ''x'')
        @ entry mv_y (r + 1, c - 2, ''y'')
        @ entry mv_z (r + 1, c + 2, ''z'')))))))))))))))))))"

text \<open>\<^verbatim>\<open>Bmove = [b[2] for b in B]\<close>: the move symbols of a neighbor list.\<close>

definition Bmove :: "(int \<times> int \<times> string) list \<Rightarrow> string list" where
  "Bmove B = map (\<lambda>b. snd (snd b)) B"


section \<open>Force and adversary model\<close>

text \<open>\<^verbatim>\<open>numpy.linspace(start, stop, num)\<close>: \<open>num\<close> evenly spaced points, both ends
  included, over the reals.\<close>

definition linspace :: "real \<Rightarrow> real \<Rightarrow> nat \<Rightarrow> real list" where
  "linspace start stop num =
     map (\<lambda>k. start + real k * ((stop - start) / real (num - 1))) [0..<num]"

text \<open>\<^verbatim>\<open>list(itertools.product(*ranges))\<close>: tuples in lexicographic order, the last
  position varying fastest.\<close>

fun itertools_product :: "'a list list \<Rightarrow> 'a list list" where
  "itertools_product [] = [[]]"
| "itertools_product (xs # xss) =
     concat (map (\<lambda>x. map (\<lambda>t. x # t) (itertools_product xss)) xs)"

record world_actionspace =
  uactions :: "real list list"
  vactions :: "real list list"
  num :: nat

text \<open>\<^verbatim>\<open>grids[g][row][col]\<close>.\<close>

definition cell3 :: "'a list list list \<Rightarrow> int \<Rightarrow> int \<Rightarrow> int \<Rightarrow> 'a result" where
  "cell3 grids g row col = bind_e (py_get grids g) (\<lambda>grid. cell grid row col)"

text \<open>One iteration of the loop over \<^verbatim>\<open>g\<close>: the u-range and the v-range of source
  \<^verbatim>\<open>g\<close>.\<close>

definition sample_ranges ::
  "int \<Rightarrow> int \<Rightarrow> real list list list \<Rightarrow> real list list list \<Rightarrow> real list \<Rightarrow> int
     \<Rightarrow> (real list \<times> real list) result" where
  "sample_ranges row col ugrids vgrids errors g =
     bind_e (cell3 ugrids g row col) (\<lambda>u.
     bind_e (py_get errors g) (\<lambda>e.
     bind_e (cell3 vgrids g row col) (\<lambda>v.
     Inr (linspace (u - e) (u + e) 10, linspace (v - e) (v + e) 10))))"

definition getWorldActionsForCell ::
  "int \<Rightarrow> int \<Rightarrow> real list list list \<Rightarrow> real list list list \<Rightarrow> real list
     \<Rightarrow> world_actionspace result" where
  "getWorldActionsForCell row col ugrids vgrids errors =
     (let numVectors = length ugrids in
      bind_e (mapM_e (sample_ranges row col ugrids vgrids errors) (map int [0..<numVectors]))
        (\<lambda>ranges.
      let uranges = map fst ranges;
          vranges = map snd ranges;
          numActions = fold (\<lambda>r acc. acc * length r) uranges 1;
          uactionspace = itertools_product uranges;
          vactionspace = itertools_product vranges
      in Inr \<lparr>uactions = uactionspace, vactions = uactionspace, num = numActions\<rparr>))"

text \<open>A loop with an accumulator whose body may raise.\<close>

fun foldM_e :: "('s \<Rightarrow> 'a \<Rightarrow> 's result) \<Rightarrow> 's \<Rightarrow> 'a list \<Rightarrow> 's result" where
  "foldM_e f acc [] = Inr acc"
| "foldM_e f acc (x # xs) = bind_e (f acc x) (\<lambda>acc'. foldM_e f acc' xs)"

definition getVectorSum :: "real list \<Rightarrow> real list \<Rightarrow> real list \<Rightarrow> (real \<times> real) result" where
  "getVectorSum us vs weights =
     foldM_e (\<lambda>(utotal, vtotal) i.
        bind_e (py_get weights i) (\<lambda>w.
        bind_e (py_get us i) (\<lambda>u.
        bind_e (py_get vs i) (\<lambda>v.
        Inr (utotal + w * u, vtotal + w * v)))))
       (0, 0) (map int [0..<length us])"

definition getVectorDiff :: "real list \<Rightarrow> real list \<Rightarrow> real list \<Rightarrow> (real \<times> real) result" where
  "getVectorDiff us vs weights =
     foldM_e (\<lambda>(utotal, vtotal) i.
        bind_e (py_get weights i) (\<lambda>w.
        bind_e (py_get us i) (\<lambda>u.
        bind_e (py_get vs i) (\<lambda>v.
        Inr (utotal - w * u, vtotal - w * v)))))
       (0, 0) (map int [0..<length us])"

definition magdir2uv :: "real \<Rightarrow> real \<Rightarrow> real \<times> real" where
  "magdir2uv mag dir_radians = (mag * cos dir_radians, mag * sin dir_radians)"

text \<open>\<^verbatim>\<open>math.atan2(y, x)\<close>, the four-quadrant arctangent.\<close>

definition atan2 :: "real \<Rightarrow> real \<Rightarrow> real" where
  "atan2 y x =
     (if 0 < x then arctan (y / x)
      else if x < 0 \<and> 0 \<le> y then arctan (y / x) + pi
      else if x < 0 then arctan (y / x) - pi
      else if 0 < y then pi / 2
      else if y < 0 then - (pi / 2)
      else 0)"

definition uv2magdir :: "real \<Rightarrow> real \<Rightarrow> real \<times> real" where
  "uv2magdir u v = (sqrt (u * u + v * v), atan2 v u)"


section \<open>Outcome function: \<^verbatim>\<open>getOutcome\<close>\<close>

record traveler =
  start :: "int \<times> int"
  target :: "int \<times> int"
  actionspace :: "string list"
  action2radians :: "string \<rightharpoonup> real"
  speed_cps :: real

text \<open>\<^verbatim>\<open>d[k]\<close> on a dict.\<close>

definition dict_get :: "('k \<rightharpoonup> 'v) \<Rightarrow> 'k \<Rightarrow> 'v result" where
  "dict_get d k = (case d k of None \<Rightarrow> Inl KeyError | Some v \<Rightarrow> Inr v)"

text \<open>\<^verbatim>\<open>work + cost2go[r][c]\<close>.\<close>

definition plus_cell :: "real \<Rightarrow> real list list \<Rightarrow> int \<Rightarrow> int \<Rightarrow> real result" where
  "plus_cell work cost2go r c = bind_e (cell cost2go r c) (\<lambda>x. Inr (work + x))"

text \<open>
  The \<^verbatim>\<open>if move == ... elif ...\<close> chain of \<^verbatim>\<open>getOutcome\<close>, giving \<^verbatim>\<open>workc\<close>. The
  branch for \<^verbatim>\<open>"*"\<close> reads the name \<^verbatim>\<open>d_max\<close>, which is neither a parameter or local of
  \<^verbatim>\<open>getOutcome\<close> (the parameter is \<^verbatim>\<open>D_max\<close>) nor a global of the module: NameError.
  The final \<^verbatim>\<open>else\<close> prints a message and leaves \<^verbatim>\<open>workc = work\<close>.
\<close>

definition move_cost :: "string \<Rightarrow> real \<Rightarrow> real list list \<Rightarrow> int \<Rightarrow> int \<Rightarrow> real result" where
  "move_cost move work cost2go row col =
     (if move = ''^'' then plus_cell work cost2go (row - 1) col
      else if move = ''v'' then plus_cell work cost2go (row + 1) col
      else if move = ''<'' then plus_cell work cost2go row (col - 1)
      else if move = ''>'' then plus_cell work cost2go row (col + 1)
      else if move = ''a'' then plus_cell work cost2go (row - 1) (col - 1)
      else if move = ''b'' then plus_cell work cost2go (row - 1) (col + 1)
      else if move = ''c'' then plus_cell work cost2go (row + 1) (col - 1)
      else if move = ''d'' then plus_cell work cost2go (row + 1) (col + 1)
      else if move = ''m'' then plus_cell work cost2go (row - 2) (col - 1)
      else if move = ''n'' then plus_cell work cost2go (row - 2) (col + 1)
      else if move = ''o'' then plus_cell work cost2go (row - 1) (col - 2)
      else if move = ''p'' then plus_cell work cost2go (row - 1) (col + 2)
      else if move = ''w'' then plus_cell work cost2go (row + 2) (col - 1)
      else if move = ''x'' then plus_cell work cost2go (row + 2) (col + 1)
      else if move = ''y'' then plus_cell work cost2go (row + 1) (col - 2)
      else if move = ''z'' then plus_cell work cost2go (row + 1) (col + 2)
      else if move = ''*'' then Inl NameError
      else Inr work)"

text \<open>
  \<^verbatim>\<open>getOutcome(move, us, vs, weights, traveler, D_max, cost2go, row, col)\<close> returns
  \<^verbatim>\<open>(workc, work)\<close>. The optional arguments are \<open>None\<close> when not supplied;
  \<^verbatim>\<open>n = len(cost2go[0])\<close> reads the first row of the grid.
\<close>

definition getOutcome ::
  "string \<Rightarrow> real list \<Rightarrow> real list \<Rightarrow> real list \<Rightarrow> traveler \<Rightarrow> real
     \<Rightarrow> real list list option \<Rightarrow> int option \<Rightarrow> int option \<Rightarrow> (real \<times> real) result" where
  "getOutcome move us vs weights trav D_max cost2go row col =
     bind_e (getVectorSum us vs weights) (\<lambda>(uw, vw).
     bind_e (dict_get (action2radians trav) move) (\<lambda>radians.
     let (ut, vt) = magdir2uv (speed_cps trav) radians in
     bind_e (getVectorDiff [uw, ut] [vw, vt] [1, 1]) (\<lambda>(ua, va).
     let (maga, dira) = uv2magdir ua va;
         work = maga
     in (case (cost2go, row, col) of
           (Some c2g, Some r, Some c) \<Rightarrow>
             bind_e (py_get c2g 0) (\<lambda>row0.
             bind_e (move_cost move work c2g r c) (\<lambda>workc.
             Inr (workc, work)))
         | _ \<Rightarrow> Inr (work, work)))))"


section \<open>Payoff matrix builder: \<^verbatim>\<open>getGameForCell\<close>\<close>

text \<open>One row of the two matrices: the pairs \<^verbatim>\<open>(game[r][c], game_work[r][c])\<close> for the
  traveler action \<^verbatim>\<open>ta\<close>.\<close>

definition game_row ::
  "string \<Rightarrow> string list \<Rightarrow> world_actionspace \<Rightarrow> real list \<Rightarrow> traveler \<Rightarrow> real
     \<Rightarrow> real list list option \<Rightarrow> int \<Rightarrow> int \<Rightarrow> (real \<times> real) list result" where
  "game_row ta Bm wa weights trav D_max cost2go row col =
     (if ta \<in> set Bm then
        mapM_e (\<lambda>c.
           bind_e (py_get (uactions wa) (int c)) (\<lambda>us.
           bind_e (py_get (vactions wa) (int c)) (\<lambda>vs.
           getOutcome ta us vs weights trav D_max cost2go (Some row) (Some col))))
          [0..<num wa]
      else Inr (replicate (num wa) (D_max, D_max)))"

definition getGameForCell ::
  "int \<Rightarrow> int \<Rightarrow> traveler \<Rightarrow> real list list list \<Rightarrow> real list list list \<Rightarrow> real list
     \<Rightarrow> real list \<Rightarrow> int list list \<Rightarrow> real \<Rightarrow> real list list option
     \<Rightarrow> (real list list \<times> real list list) result" where
  "getGameForCell row col trav ugrids vgrids errors weights env D_max cost2go =
     bind_e (getWorldActionsForCell row col ugrids vgrids errors) (\<lambda>wa.
     bind_e (getNeighbors (row, col) (shape0 env) (shape1 env) env 1) (\<lambda>B.
     bind_e (mapM_e (\<lambda>ta. game_row ta (Bmove B) wa weights trav D_max cost2go row col)
               (actionspace trav)) (\<lambda>rows.
     Inr (map (map fst) rows, map (map snd) rows))))"


section \<open>Zero-sum game solver: \<^verbatim>\<open>solve_williams\<close> and \<^verbatim>\<open>solveGame\<close>\<close>

text \<open>\<^verbatim>\<open>min(xs)\<close> and \<^verbatim>\<open>max(xs)\<close>: ValueError on an empty sequence. Pairs are compared
  lexicographically, as Python compares tuples.\<close>

definition py_min :: "('a::linorder) list \<Rightarrow> 'a result" where
  "py_min xs = (case xs of [] \<Rightarrow> Inl ValueError | x # rest \<Rightarrow> Inr (fold min rest x))"

definition py_max :: "('a::linorder) list \<Rightarrow> 'a result" where
  "py_max xs = (case xs of [] \<Rightarrow> Inl ValueError | x # rest \<Rightarrow> Inr (fold max rest x))"

text \<open>\<^verbatim>\<open>zip(*rows)\<close>: the columns, cut at the shortest row.\<close>

definition zip_star :: "'a list list \<Rightarrow> 'a list list" where
  "zip_star rows =
     (case rows of [] \<Rightarrow> []
      | r # rs \<Rightarrow> map (\<lambda>j. map (\<lambda>row. row ! j) rows) [0..<fold min (map length rs) (length r)])"

text \<open>\<^verbatim>\<open>map(add, xs, ys)\<close> of Python 2: the shorter list is padded with \<^verbatim>\<open>None\<close>, and
  adding \<^verbatim>\<open>None\<close> raises TypeError.\<close>

definition map_add_e :: "real list \<Rightarrow> real list \<Rightarrow> real list result" where
  "map_add_e xs ys =
     (if length xs = length ys then Inr (map (\<lambda>(x, y). x + y) (zip xs ys)) else Inl TypeError)"

text \<open>\<^verbatim>\<open>cnt[i] += 1\<close>.\<close>

definition py_incr :: "nat list \<Rightarrow> int \<Rightarrow> nat list result" where
  "py_incr cnt i = bind_e (py_index cnt i) (\<lambda>j. Inr (cnt[j := cnt ! j + 1]))"

record williams_state =
  rowcnt :: "nat list"
  colcnt :: "nat list"
  row_cum_payoff :: "real list"
  col_cum_payoff :: "real list"
  active :: int

text \<open>One pass of the loop body of \<^verbatim>\<open>solve_williams\<close>; \<open>pm\<close> is the negated payoff
  matrix and \<open>tr\<close> its transpose.\<close>

definition williams_step ::
  "real list list \<Rightarrow> real list list \<Rightarrow> int list \<Rightarrow> int list \<Rightarrow> williams_state
     \<Rightarrow> williams_state result" where
  "williams_step pm tr colpos rowpos s =
     bind_e (py_incr (rowcnt s) (active s)) (\<lambda>rc.
     bind_e (py_get pm (active s)) (\<lambda>prow.
     bind_e (map_add_e prow (col_cum_payoff s)) (\<lambda>ccp.
     bind_e (py_min (zip ccp colpos)) (\<lambda>mn.
     bind_e (py_incr (colcnt s) (snd mn)) (\<lambda>cc.
     bind_e (py_get tr (snd mn)) (\<lambda>tcol.
     bind_e (map_add_e tcol (row_cum_payoff s)) (\<lambda>rcp.
     bind_e (py_max (zip rcp rowpos)) (\<lambda>mx.
     Inr \<lparr>rowcnt = rc, colcnt = cc, row_cum_payoff = rcp, col_cum_payoff = ccp,
          active = - snd mx\<rparr>))))))))"

fun williams_loop ::
  "nat \<Rightarrow> real list list \<Rightarrow> real list list \<Rightarrow> int list \<Rightarrow> int list \<Rightarrow> williams_state
     \<Rightarrow> williams_state result" where
  "williams_loop 0 pm tr colpos rowpos s = Inr s"
| "williams_loop (Suc k) pm tr colpos rowpos s =
     bind_e (williams_step pm tr colpos rowpos s) (williams_loop k pm tr colpos rowpos)"

text \<open>
  \<^verbatim>\<open>solve_williams(payoff_matrix, iterations)\<close>: fictitious play on the negated matrix.
  \<^verbatim>\<open>value_of_game\<close> is computed (and may raise) but not returned; the result is the two
  play-count vectors divided by the number of iterations.
\<close>

definition solve_williams :: "real list list \<Rightarrow> nat \<Rightarrow> (real list \<times> real list) result" where
  "solve_williams payoff_matrix iterations =
     (let pm = map (map uminus) payoff_matrix;
          tr = zip_star pm;
          numrows = length pm;
          numcols = length tr;
          colpos = map int [0..<numcols];
          rowpos = map (\<lambda>k. - int k) [0..<numrows];
          s0 = \<lparr>rowcnt = replicate numrows 0, colcnt = replicate numcols 0,
                row_cum_payoff = replicate numrows 0, col_cum_payoff = replicate numcols 0,
                active = 0\<rparr>
      in bind_e (williams_loop iterations pm tr colpos rowpos s0) (\<lambda>s.
         bind_e (py_max (row_cum_payoff s)) (\<lambda>mx.
         bind_e (py_min (col_cum_payoff s)) (\<lambda>mn.
         if iterations = 0 then Inl ZeroDivisionError
         else Inr (map (\<lambda>k. real k / real iterations) (rowcnt s),
                   map (\<lambda>k. real k / real iterations) (colcnt s))))))"

text \<open>\<^verbatim>\<open>numpy.argmax(xs)\<close>: the first index of the maximum; ValueError on an empty
  array.\<close>

fun first_index :: "'a \<Rightarrow> 'a list \<Rightarrow> nat" where
  "first_index x [] = 0"
| "first_index x (y # ys) = (if x = y then 0 else Suc (first_index x ys))"

definition argmax :: "real list \<Rightarrow> nat result" where
  "argmax xs = bind_e (py_max xs) (\<lambda>mx. Inr (first_index mx xs))"

text \<open>
  \<^verbatim>\<open>solveGame(game, method)\<close>. Methods 1 and 2 hand the matrix to the external gambit and
  nashpy libraries; what they return is the parameter \<open>external\<close>. Any other method
  leaves \<^verbatim>\<open>y\<close> unassigned.
\<close>

definition solveGame ::
  "(int \<Rightarrow> real list list \<Rightarrow> (real list \<times> real list) result) \<Rightarrow> real list list \<Rightarrow> int
     \<Rightarrow> (real list \<times> real list \<times> nat \<times> nat \<times> real) result" where
  "solveGame external game method =
     bind_e (if method = 0 then solve_williams game 100
             else if method = 1 \<or> method = 2 then external method game
             else Inl UnboundLocalError) (\<lambda>(y, z).
     bind_e (argmax y) (\<lambda>i.
     bind_e (argmax z) (\<lambda>j.
     bind_e (cell game (int i) (int j)) (\<lambda>v.
     Inr (y, z, i, j, v)))))"


section \<open>Cost-to-go propagation: \<^verbatim>\<open>getCost2go\<close>\<close>

text \<open>
  \<^verbatim>\<open>f_work\<close> is a function nested in \<^verbatim>\<open>getCost2go\<close>. Its body reads the names
  \<^verbatim>\<open>row\<close> and \<^verbatim>\<open>col\<close>, which are not among its parameters: they are variables of the
  enclosing call of \<^verbatim>\<open>getCost2go\<close>, passed here as \<open>clo_row\<close> and \<open>clo_col\<close>
  (\<open>None\<close> when the variable was never assigned, which raises NameError on access).
\<close>

definition closure_var :: "int option \<Rightarrow> int result" where
  "closure_var v = (case v of None \<Rightarrow> Inl NameError | Some x \<Rightarrow> Inr x)"

text \<open>\<^verbatim>\<open>[e[row][col] for e in grids]\<close> with \<^verbatim>\<open>row\<close>, \<^verbatim>\<open>col\<close> from the enclosing
  scope.\<close>

definition closure_cells :: "int option \<Rightarrow> int option \<Rightarrow> real list list list \<Rightarrow> real list result" where
  "closure_cells clo_row clo_col grids =
     mapM_e (\<lambda>e.
        bind_e (closure_var clo_row) (\<lambda>row.
        bind_e (py_get e row) (\<lambda>er.
        bind_e (closure_var clo_col) (\<lambda>col.
        py_get er col)))) grids"

definition f_work ::
  "int option \<Rightarrow> int option \<Rightarrow> (int \<Rightarrow> real list list \<Rightarrow> (real list \<times> real list) result)
     \<Rightarrow> int \<times> int \<Rightarrow> int \<Rightarrow> int \<Rightarrow> real list list \<Rightarrow> real \<Rightarrow> int list list \<Rightarrow> traveler
     \<Rightarrow> real list list list \<Rightarrow> real list list list \<Rightarrow> real list list list
     \<Rightarrow> real list list list \<Rightarrow> int \<Rightarrow> (real \<times> string) result" where
  "f_work clo_row clo_col external i m n c2g D_max env trav ugrids vgrids egrids wgrids method =
     bind_e (closure_cells clo_row clo_col egrids) (\<lambda>errors.
     bind_e (closure_cells clo_row clo_col wgrids) (\<lambda>weights.
     bind_e (getGameForCell (fst i) (snd i) trav ugrids vgrids errors weights env D_max
               (Some c2g)) (\<lambda>(g, g_work).
     bind_e (solveGame external g method) (\<lambda>(y, z, si, sj, v).
     bind_e (py_get (actionspace trav) (int si)) (\<lambda>a.
     Inr (v, a))))))"

text \<open>The test \<^verbatim>\<open>cost2go[r][c] == D_max\<close>.\<close>

definition is_dmax :: "real list list \<Rightarrow> real \<Rightarrow> int \<Rightarrow> int \<Rightarrow> bool result" where
  "is_dmax c2g D_max r c = bind_e (cell c2g r c) (\<lambda>x. Inr (x = D_max))"

text \<open>The third condition of \<^verbatim>\<open>getNewCost\<close> ("surrounded by D_max"), its eight
  conjuncts in source order.\<close>

definition surrounded :: "real list list \<Rightarrow> real \<Rightarrow> int \<times> int \<Rightarrow> bool result" where
  "surrounded c2g D_max i =
     (let r = fst i; c = snd i in
      and_e (is_dmax c2g D_max (r - 1) c)
     (and_e (is_dmax c2g D_max (r - 1) (c - 1))
     (and_e (is_dmax c2g D_max (r - 1) c)
     (and_e (is_dmax c2g D_max (r - 1) (c + 1))
     (and_e (is_dmax c2g D_max r (c - 1))
     (and_e (is_dmax c2g D_max (r + 1) (c - 1))
     (and_e (is_dmax c2g D_max r (c + 1))
            (is_dmax c2g D_max (r + 1) (c + 1)))))))))"

definition getNewCost ::
  "int option \<Rightarrow> int option \<Rightarrow> (int \<Rightarrow> real list list \<Rightarrow> (real list \<times> real list) result)
     \<Rightarrow> int \<times> int \<Rightarrow> int \<times> int \<Rightarrow> int list list \<Rightarrow> int \<Rightarrow> int \<Rightarrow> real list list \<Rightarrow> real
     \<Rightarrow> traveler \<Rightarrow> real list list list \<Rightarrow> real list list list \<Rightarrow> real list list list
     \<Rightarrow> real list list list \<Rightarrow> (real \<times> string) result" where
  "getNewCost clo_row clo_col external i G occgrid m n c2g D_max trav ugrids vgrids egrids wgrids =
     (if i = G then Inr (0, ''*'')
      else bind_e (cell occgrid (fst i) (snd i)) (\<lambda>occ.
        if occ = 1 then Inr (D_max, '' '')
        else bind_e (surrounded c2g D_max i) (\<lambda>s.
          if s then Inr (D_max, ''-'')
          else bind_e (f_work clo_row clo_col external i (shape0 occgrid) (shape1 occgrid)
                         c2g D_max occgrid trav ugrids vgrids egrids wgrids 0) (\<lambda>(c, b).
            if c \<ge> D_max then Inr (D_max, ''-'') else Inr (c, b)))))"

record bounds =
  upperleft :: "int \<times> int"
  lowerright :: "int \<times> int"

text \<open>The inputs of one call of \<^verbatim>\<open>getCost2go\<close> that its loops read but never change,
  with \<^verbatim>\<open>D_max\<close> and the variables \<^verbatim>\<open>row\<close>, \<^verbatim>\<open>col\<close> of its scope.\<close>

record sweep_inputs =
  in_traveler :: traveler
  in_occgrid :: "int list list"
  in_ugrids :: "real list list list"
  in_vgrids :: "real list list list"
  in_egrids :: "real list list list"
  in_wgrids :: "real list list list"
  in_bounds :: bounds
  in_D_max :: real
  in_row :: "int option"
  in_col :: "int option"
  in_external :: "int \<Rightarrow> real list list \<Rightarrow> (real list \<times> real list) result"

text \<open>The mutable variables of a sweep: the two grids written cell by cell, the FIFO
  \<^verbatim>\<open>visitQueue\<close> and the set \<^verbatim>\<open>visitHistory\<close>.\<close>

record sweep_state =
  st_cost2go :: "real list list"
  st_action2go :: "string list list"
  st_queue :: "(int \<times> int) list"
  st_history :: "(int \<times> int) set"

text \<open>The bounds test of the inner \<^verbatim>\<open>for b in B\<close> loop.\<close>

definition within_bounds :: "bounds \<Rightarrow> int \<times> int \<Rightarrow> bool" where
  "within_bounds bnd b =
     (fst b > fst (upperleft bnd) \<and> fst b < fst (lowerright bnd) \<and>
      snd b > snd (upperleft bnd) \<and> snd b < snd (lowerright bnd))"

text \<open>The body of \<^verbatim>\<open>for b in B\<close>, on the pair (visitQueue, visitHistory).\<close>

definition enqueue ::
  "bounds \<Rightarrow> int \<times> int \<times> string \<Rightarrow> (int \<times> int) list \<times> (int \<times> int) set
     \<Rightarrow> (int \<times> int) list \<times> (int \<times> int) set" where
  "enqueue bnd b3 qh =
     (let b = (fst b3, fst (snd b3)) in
      if within_bounds bnd b then
        (if b \<notin> snd qh then (fst qh @ [b], insert b (snd qh)) else qh)
      else qh)"

text \<open>The body of the \<^verbatim>\<open>while visitQueue\<close> loop after \<^verbatim>\<open>i = visitQueue.pop(0)\<close>.\<close>

definition visit :: "sweep_inputs \<Rightarrow> int \<times> int \<Rightarrow> sweep_state \<Rightarrow> sweep_state result" where
  "visit inp i st =
     (let occ = in_occgrid inp; bnd = in_bounds inp in
      bind_e (getNewCost (in_row inp) (in_col inp) (in_external inp) i (target (in_traveler inp))
                occ (abs (fst (lowerright bnd) - fst (upperleft bnd)))
                (abs (snd (lowerright bnd) - snd (upperleft bnd)))
                (st_cost2go st) (in_D_max inp) (in_traveler inp)
                (in_ugrids inp) (in_vgrids inp) (in_egrids inp) (in_wgrids inp)) (\<lambda>(cost, action).
      bind_e (cell_set (st_cost2go st) (fst i) (snd i) cost) (\<lambda>c2g.
      bind_e (cell_set (st_action2go st) (fst i) (snd i) action) (\<lambda>a2g.
      bind_e (getNeighbors i (shape0 occ) (shape1 occ) occ 1) (\<lambda>B.
      let qh = fold (enqueue bnd) B (st_queue st, st_history st) in
      Inr \<lparr>st_cost2go = c2g, st_action2go = a2g, st_queue = fst qh, st_history = snd qh\<rparr>)))))"

text \<open>The cells a sweep may enqueue, and the measure that bounds the while loop: cells
  of the rectangle not yet in \<^verbatim>\<open>visitHistory\<close>, plus the length of the queue.\<close>

definition bounds_cells :: "bounds \<Rightarrow> (int \<times> int) set" where
  "bounds_cells bnd =
     {fst (upperleft bnd) <..< fst (lowerright bnd)} \<times> {snd (upperleft bnd) <..< snd (lowerright bnd)}"

definition pending :: "bounds \<Rightarrow> (int \<times> int) list \<times> (int \<times> int) set \<Rightarrow> nat" where
  "pending bnd qh = card (bounds_cells bnd - snd qh) + length (fst qh)"

lemma within_bounds_cells: "within_bounds bnd b = (b \<in> bounds_cells bnd)"
  by (cases b) (auto simp: within_bounds_def bounds_cells_def)

lemma finite_bounds_cells: "finite (bounds_cells bnd)"
  by (simp add: bounds_cells_def)

lemma pending_enqueue: "pending bnd (enqueue bnd b3 qh) = pending bnd qh"
proof -
  let ?b = "(fst b3, fst (snd b3))"
  show ?thesis
  proof (cases "within_bounds bnd ?b \<and> ?b \<notin> snd qh")
    case True
    then have "?b \<in> bounds_cells bnd - snd qh"
      by (simp add: within_bounds_cells)
    moreover have "finite (bounds_cells bnd - snd qh)"
      by (simp add: finite_bounds_cells)
    ultimately have "card (bounds_cells bnd - insert ?b (snd qh)) + 1 = card (bounds_cells bnd - snd qh)"
      by (metis Diff_insert Suc_eq_plus1 card_Suc_Diff1)
    with True show ?thesis
      by (simp add: pending_def enqueue_def Let_def)
  next
    case False
    then show ?thesis
      by (auto simp: pending_def enqueue_def Let_def)
  qed
qed

lemma pending_fold_enqueue: "pending bnd (fold (enqueue bnd) B qh) = pending bnd qh"
  by (induction B arbitrary: qh) (simp_all add: pending_enqueue)

lemma bind_e_Inr_iff: "(bind_e m f = Inr y) = (\<exists>x. m = Inr x \<and> f x = Inr y)"
  by (cases m) (simp_all add: bind_e_def)

lemma visit_pending:
  assumes "visit inp i st = Inr st'"
  shows "pending (in_bounds inp) (st_queue st', st_history st')
       = pending (in_bounds inp) (st_queue st, st_history st)"
proof -
  from assms obtain B where
    "st_queue st' = fst (fold (enqueue (in_bounds inp)) B (st_queue st, st_history st))"
    "st_history st' = snd (fold (enqueue (in_bounds inp)) B (st_queue st, st_history st))"
    by (auto simp: visit_def Let_def bind_e_Inr_iff)
  then show ?thesis
    by (simp add: pending_fold_enqueue)
qed

text \<open>The \<^verbatim>\<open>while visitQueue\<close> loop of one sweep.\<close>

function while_visit :: "sweep_inputs \<Rightarrow> sweep_state \<Rightarrow> sweep_state result" where
  "while_visit inp st =
     (case st_queue st of
        [] \<Rightarrow> Inr st
      | i # rest \<Rightarrow>
          (case visit inp i (st\<lparr>st_queue := rest\<rparr>) of
             Inl e \<Rightarrow> Inl e
           | Inr st' \<Rightarrow> while_visit inp st'))"
  by pat_completeness auto
termination
proof (relation "measure (\<lambda>(inp, st). pending (in_bounds inp) (st_queue st, st_history st))")
  show "wf (measure (\<lambda>(inp, st). pending (in_bounds inp) (st_queue st, st_history st)))"
    by simp
next
  fix inp :: sweep_inputs and st :: sweep_state and i rest st'
  assume q: "st_queue st = i # rest" and v: "visit inp i (st\<lparr>st_queue := rest\<rparr>) = Inr st'"
  from visit_pending[OF v] q
  show "((inp, st'), (inp, st))
        \<in> measure (\<lambda>(inp, st). pending (in_bounds inp) (st_queue st, st_history st))"
    by (simp add: pending_def)
qed

text \<open>One pass of \<^verbatim>\<open>for k in range(iterations)\<close>: a sweep seeded with the target, on
  the grids left by the previous sweep.\<close>

definition sweep ::
  "sweep_inputs \<Rightarrow> real list list \<times> string list list \<Rightarrow> (real list list \<times> string list list) result" where
  "sweep inp grids =
     bind_e (while_visit inp
               \<lparr>st_cost2go = fst grids, st_action2go = snd grids,
                st_queue = [target (in_traveler inp)], st_history = {}\<rparr>) (\<lambda>st.
     Inr (st_cost2go st, st_action2go st))"

fun sweeps ::
  "nat \<Rightarrow> sweep_inputs \<Rightarrow> real list list \<times> string list list
     \<Rightarrow> (real list list \<times> string list list) result" where
  "sweeps 0 inp grids = Inr grids"
| "sweeps (Suc k) inp grids = bind_e (sweep inp grids) (sweeps k inp)"

text \<open>
  \<^verbatim>\<open>getCost2go(traveler, occgrid, ugrids, vgrids, egrids, wgrids, bounds, verbose,
  iterations, method)\<close>. \<^verbatim>\<open>bounds\<close> and \<^verbatim>\<open>iterations\<close> default to \<open>None\<close>; the bounds are
  subscripted at once, so \<open>None\<close> raises TypeError. The list comprehension that builds
  \<^verbatim>\<open>action2go\<close> runs \<^verbatim>\<open>for row in range(full_m)\<close> and, inside it,
  \<^verbatim>\<open>for col in range(full_n)\<close>; in Python 2 its loop variables stay assigned in the scope
  of \<^verbatim>\<open>getCost2go\<close> with their last values, and these are the \<^verbatim>\<open>row\<close> and \<^verbatim>\<open>col\<close>
  that \<^verbatim>\<open>f_work\<close> reads. \<^verbatim>\<open>work2go\<close> is created as zeros and returned; \<^verbatim>\<open>history\<close> is
  \<open>None\<close>. The arguments \<^verbatim>\<open>verbose\<close> and \<^verbatim>\<open>method\<close> are never read.
\<close>

definition getCost2go ::
  "(int \<Rightarrow> real list list \<Rightarrow> (real list \<times> real list) result) \<Rightarrow> traveler \<Rightarrow> int list list
     \<Rightarrow> real list list list \<Rightarrow> real list list list \<Rightarrow> real list list list
     \<Rightarrow> real list list list \<Rightarrow> bounds option \<Rightarrow> int option
     \<Rightarrow> (real list list \<times> real list list \<times> string list list \<times> unit option) result" where
  "getCost2go external trav occgrid ugrids vgrids egrids wgrids bnds iterations =
     (case bnds of
        None \<Rightarrow> Inl TypeError
      | Some bnd \<Rightarrow>
         (let full_m = length occgrid;
              full_n = nat (shape1 occgrid);
              m = abs (fst (lowerright bnd) - fst (upperleft bnd));
              n = abs (snd (lowerright bnd) - snd (upperleft bnd));
              M = m * n;
              d_max = sqrt 2 * 10;
              D_max = real_of_int M * d_max * 100000000000 * 10000000000;
              iters = (case iterations of None \<Rightarrow> M | Some k \<Rightarrow> k);
              cost2go0 = replicate full_m (replicate full_n D_max);
              work2go = replicate full_m (replicate full_n (0::real));
              action2go0 = replicate full_m (replicate full_n ''-'');
              inp = \<lparr>in_traveler = trav, in_occgrid = occgrid, in_ugrids = ugrids,
                     in_vgrids = vgrids, in_egrids = egrids, in_wgrids = wgrids,
                     in_bounds = bnd, in_D_max = D_max,
                     in_row = (if 0 < full_m then Some (int full_m - 1) else None),
                     in_col = (if 0 < full_m \<and> 0 < full_n then Some (int full_n - 1) else None),
                     in_external = external\<rparr>
          in bind_e (sweeps (nat iters) inp (cost2go0, action2go0)) (\<lambda>grids.
             Inr (fst grids, work2go, snd grids, None))))"


section \<open>Specification predicates and sample inputs\<close>

text \<open>A 2D array with \<open>m\<close> rows of \<open>n\<close> entries each.\<close>

definition rect :: "'a list list \<Rightarrow> int \<Rightarrow> int \<Rightarrow> bool" where
  "rect g m n = (int (length g) = m \<and> list_all (\<lambda>row. int (length row) = n) g)"

text \<open>The cell \<open>(r, c)\<close> is inside the \<open>m\<close> by \<open>n\<close> grid and is not an obstacle.\<close>

definition open_cell :: "int list list \<Rightarrow> int \<Rightarrow> int \<Rightarrow> int \<Rightarrow> int \<Rightarrow> int \<Rightarrow> bool" where
  "open_cell env m n obstacleFlag r c =
     (0 \<le> r \<and> r < m \<and> 0 \<le> c \<and> c < n \<and> env ! nat r ! nat c \<noteq> obstacleFlag)"

text \<open>
  The condition under which the code returns a knight move with destination offset
  \<open>(dr, dc)\<close> in the quadrant \<open>(sr, sc)\<close>: the destination, the straight neighbor
  \<open>(r + sr, c)\<close>, the diagonal neighbor \<open>(r + sr, c + sc)\<close> and the other straight
  neighbor \<open>(r, c + sc)\<close> are all inside the grid and free.
\<close>

definition knight_ok ::
  "int list list \<Rightarrow> int \<Rightarrow> int \<Rightarrow> int \<Rightarrow> int \<Rightarrow> int \<Rightarrow> int \<Rightarrow> int \<Rightarrow> int \<Rightarrow> int \<Rightarrow> bool" where
  "knight_ok env m n ofl r c sr sc dr dc =
     (open_cell env m n ofl (r + dr) (c + dc) \<and> open_cell env m n ofl (r + sr) c
      \<and> open_cell env m n ofl (r + sr) (c + sc) \<and> open_cell env m n ofl r (c + sc))"

text \<open>A traveler of speed 1 whose move \<^verbatim>\<open>">"\<close> has heading 0, as in \<^verbatim>\<open>getTraveler\<close>
  (where \<^verbatim>\<open>"*"\<close> has the angle 0 too).\<close>

definition east_traveler :: traveler where
  "east_traveler = \<lparr>start = (0, 0), target = (0, 0), actionspace = [''>''],
      action2radians = [''>'' \<mapsto> 0, ''*'' \<mapsto> 0], speed_cps = 1\<rparr>"

text \<open>A payoff matrix with at least one row and one column, all rows equally long.\<close>

definition payoff_wf :: "real list list \<Rightarrow> bool" where
  "payoff_wf game = (game \<noteq> [] \<and> hd game \<noteq> [] \<and> list_all (\<lambda>r. length r = length (hd game)) game)"

text \<open>The invariant of the fictitious-play loop after \<open>k\<close> iterations on an \<open>m\<close> by
  \<open>n\<close> matrix.\<close>

definition williams_inv :: "nat \<Rightarrow> nat \<Rightarrow> nat \<Rightarrow> williams_state \<Rightarrow> bool" where
  "williams_inv m n k s =
     (length (rowcnt s) = m \<and> length (colcnt s) = n \<and>
      length (row_cum_payoff s) = m \<and> length (col_cum_payoff s) = n \<and>
      0 \<le> active s \<and> active s < int m \<and>
      sum_list (rowcnt s) = k \<and> sum_list (colcnt s) = k)"

text \<open>A cell with nonnegative row and column: an index that Python does not count from
  the end of the array.\<close>

definition nonneg_cell :: "int \<times> int \<Rightarrow> bool" where
  "nonneg_cell i = (0 \<le> fst i \<and> 0 \<le> snd i)"

text \<open>Reading the target cell \<open>G\<close> of the two grids gives cost 0 and the action
  \<^verbatim>\<open>"*"\<close>.\<close>

definition target_fixed :: "int \<times> int \<Rightarrow> real list list \<Rightarrow> string list list \<Rightarrow> bool" where
  "target_fixed G c2g a2g =
     (cell c2g (fst G) (snd G) = Inr 0 \<and> cell a2g (fst G) (snd G) = Inr ''*'')"

text \<open>The number of sweeps \<^verbatim>\<open>getCost2go\<close> runs: \<^verbatim>\<open>iterations\<close>, or the cell count
  \<^verbatim>\<open>M\<close> of the bounds when it is \<open>None\<close>.\<close>

definition iteration_budget :: "bounds \<Rightarrow> int option \<Rightarrow> int" where
  "iteration_budget bnd iterations =
     (case iterations of
        None \<Rightarrow> abs (fst (lowerright bnd) - fst (upperleft bnd))
                 * abs (snd (lowerright bnd) - snd (upperleft bnd))
      | Some k \<Rightarrow> k)"

text \<open>
  The traveler of a sample run in which the target is popped twice in each sweep: on a
  3 by 2 grid whose free cells are \<open>(1, 0)\<close> and the target \<open>(2, 0)\<close>, with bounds
  admitting column 0 of rows 1 and 2, the target enqueues \<open>(1, 0)\<close>, which enqueues the
  target again.
\<close>

definition corridor_traveler :: traveler where
  "corridor_traveler = \<lparr>start = (1, 0), target = (2, 0),
      actionspace = [''^'', ''v'', ''<'', ''>''],
      action2radians = [''>'' \<mapsto> 0, ''^'' \<mapsto> pi / 2, ''<'' \<mapsto> pi, ''v'' \<mapsto> pi * 1.5],
      speed_cps = 1\<rparr>"


text \<open>
  The traveler that \<^verbatim>\<open>getTraveler\<close> builds for the \<^verbatim>\<open>"4way"\<close> action space, with speed 1
  and target \<open>(1, 0)\<close>; the angles are those of its \<^verbatim>\<open>action2radians\<close> table.
\<close>

definition traveler_4way :: traveler where
  "traveler_4way = \<lparr>start = (1, 1), target = (1, 0),
      actionspace = [''^'', ''v'', ''<'', ''>''],
      action2radians = map_of
        [(''>'', 0), (''b'', pi / 4), (''^'', pi / 2), (''a'', pi * 0.75), (''<'', pi),
         (''c'', pi * 1.25), (''v'', pi * 1.5), (''d'', pi * 1.75),
         (''m'', (pi / 2) + 0.5 * ((pi * 0.75) - (pi / 2))),
         (''n'', (pi / 4) + 0.5 * ((pi / 2) - (pi / 4))),
         (''o'', (pi * 0.75) + 0.5 * (pi - (pi * 0.75))),
         (''p'', 0 + 0.5 * ((pi / 4) - 0)),
         (''w'', (pi * 1.25) + 0.5 * ((pi * 1.5) - (pi * 1.25))),
         (''x'', (pi * 1.5) + 0.5 * ((pi * 1.75) - (pi * 1.5))),
         (''y'', pi + 0.5 * ((pi * 1.25) - pi)),
         (''z'', (pi * 1.75) + 0.5 * ((pi * 2) - (pi * 1.75))),
         (''*'', 0), (''-'', 0), ('' '', 0)],
      speed_cps = 1\<rparr>"

text \<open>\<^verbatim>\<open>D_max\<close> as \<^verbatim>\<open>getCost2go\<close> computes it for the bounds \<open>(0, 0)\<close> to \<open>(2, 2)\<close>:
  \<^verbatim>\<open>M = 4\<close> cells.\<close>

definition sample_D_max :: real where
  "sample_D_max = real_of_int (abs (2 - 0) * abs (2 - 0)) * (sqrt 2 * 10) * 100000000000 * 10000000000"


section \<open>Properties of the grid connectivity\<close>

lemma cell_in_range:
  assumes "rect g m n" "0 \<le> r" "r < m" "0 \<le> c" "c < n"
  shows "cell g r c = Inr (g ! nat r ! nat c)"
proof -
  from assms have lr: "nat r < length g" by (auto simp: rect_def)
  with assms have "int (length (g ! nat r)) = n"
    by (simp add: rect_def list_all_length)
  with assms lr show ?thesis
    by (simp add: cell_def py_get_def py_index_def bind_e_def Let_def rect_def)
qed

lemma guarded_free_at:
  assumes "rect env m n" "g \<Longrightarrow> 0 \<le> r \<and> r < m \<and> 0 \<le> c \<and> c < n"
  shows "guarded g (free_at env r c ofl) = Inr (g \<and> open_cell env m n ofl r c)"
  using assms
  by (cases g) (simp_all add: guarded_def free_at_def cell_in_range bind_e_def open_cell_def)

lemma bind_e_Inr [simp]: "bind_e (Inr x) f = f x"
  by (simp add: bind_e_def)

lemma bind_e_Inl [simp]: "bind_e (Inl e) f = Inl e"
  by (simp add: bind_e_def)

lemma getNeighbors_wf:
  assumes R: "rect env m n" and i: "0 \<le> r" "r < m" "0 \<le> c" "c < n"
  shows "getNeighbors (r, c) m n env ofl =
    Inr (entry (open_cell env m n ofl (r - 1) c) (r - 1, c, ''^'')
        @ entry (open_cell env m n ofl (r + 1) c) (r + 1, c, ''v'')
        @ entry (open_cell env m n ofl r (c - 1)) (r, c - 1, ''<'')
        @ entry (open_cell env m n ofl r (c + 1)) (r, c + 1, ''>'')
        @ entry (open_cell env m n ofl (r - 1) (c - 1)) (r - 1, c - 1, ''a'')
        @ entry (open_cell env m n ofl (r - 1) (c + 1)) (r - 1, c + 1, ''b'')
        @ entry (open_cell env m n ofl (r + 1) (c - 1)) (r + 1, c - 1, ''c'')
        @ entry (open_cell env m n ofl (r + 1) (c + 1)) (r + 1, c + 1, ''d'')
        @ entry (open_cell env m n ofl (r - 1) c \<and> open_cell env m n ofl (r - 1) (c - 1)
                 \<and> open_cell env m n ofl r (c - 1) \<and> open_cell env m n ofl (r - 2) (c - 1))
            (r - 2, c - 1, ''m'')
        @ entry (open_cell env m n ofl (r - 1) c \<and> open_cell env m n ofl (r - 1) (c + 1)
                 \<and> open_cell env m n ofl r (c + 1) \<and> open_cell env m n ofl (r - 2) (c + 1))
            (r - 2, c + 1, ''n'')
        @ entry (open_cell env m n ofl (r - 1) c \<and> open_cell env m n ofl (r - 1) (c - 1)
                 \<and> open_cell env m n ofl r (c - 1) \<and> open_cell env m n ofl (r - 1) (c - 2))
            (r - 1, c - 2, ''o'')
        @ entry (open_cell env m n ofl (r - 1) c \<and> open_cell env m n ofl (r - 1) (c + 1)
                 \<and> open_cell env m n ofl r (c + 1) \<and> open_cell env m n ofl (r - 1) (c + 2))
            (r - 1, c + 2, ''p'')
        @ entry (open_cell env m n ofl (r + 1) c \<and> open_cell env m n ofl (r + 1) (c - 1)
                 \<and> open_cell env m n ofl r (c - 1) \<and> open_cell env m n ofl (r + 2) (c - 1))
            (r + 2, c - 1, ''w'')
        @ entry (open_cell env m n ofl (r + 1) c \<and> open_cell env m n ofl (r + 1) (c + 1)
                 \<and> open_cell env m n ofl r (c + 1) \<and> open_cell env m n ofl (r + 2) (c + 1))
            (r + 2, c + 1, ''x'')
        @ entry (open_cell env m n ofl (r + 1) c \<and> open_cell env m n ofl (r + 1) (c - 1)
                 \<and> open_cell env m n ofl r (c - 1) \<and> open_cell env m n ofl (r + 1) (c - 2))
            (r + 1, c - 2, ''y'')
        @ entry (open_cell env m n ofl (r + 1) c \<and> open_cell env m n ofl (r + 1) (c + 1)
                 \<and> open_cell env m n ofl r (c + 1) \<and> open_cell env m n ofl (r + 1) (c + 2))
            (r + 1, c + 2, ''z''))"
proof -
  note g = guarded_free_at[OF R, where ofl = ofl]
  have up: "guarded (r - 1 \<ge> 0) (free_at env (r - 1) c ofl) = Inr (open_cell env m n ofl (r - 1) c)"
    using i by (subst g) (auto simp: open_cell_def)
  have down: "guarded (r + 1 < m) (free_at env (r + 1) c ofl) = Inr (open_cell env m n ofl (r + 1) c)"
    using i by (subst g) (auto simp: open_cell_def)
  have left: "guarded (c - 1 \<ge> 0) (free_at env r (c - 1) ofl) = Inr (open_cell env m n ofl r (c - 1))"
    using i by (subst g) (auto simp: open_cell_def)
  have right: "guarded (c + 1 < n) (free_at env r (c + 1) ofl) = Inr (open_cell env m n ofl r (c + 1))"
    using i by (subst g) (auto simp: open_cell_def)
  have upleft: "guarded (r - 1 \<ge> 0 \<and> c - 1 \<ge> 0) (free_at env (r - 1) (c - 1) ofl)
      = Inr (open_cell env m n ofl (r - 1) (c - 1))"
    using i by (subst g) (auto simp: open_cell_def)
  have upright: "guarded (r - 1 \<ge> 0 \<and> c + 1 < n) (free_at env (r - 1) (c + 1) ofl)
      = Inr (open_cell env m n ofl (r - 1) (c + 1))"
    using i by (subst g) (auto simp: open_cell_def)
  have downleft: "guarded (r + 1 < m \<and> c - 1 \<ge> 0) (free_at env (r + 1) (c - 1) ofl)
      = Inr (open_cell env m n ofl (r + 1) (c - 1))"
    using i by (subst g) (auto simp: open_cell_def)
  have downright: "guarded (r + 1 < m \<and> c + 1 < n) (free_at env (r + 1) (c + 1) ofl)
      = Inr (open_cell env m n ofl (r + 1) (c + 1))"
    using i by (subst g) (auto simp: open_cell_def)
  have km: "guarded (r - 2 \<ge> 0 \<and> c - 1 \<ge> 0 \<and> P \<and> Q \<and> S) (free_at env (r - 2) (c - 1) ofl)
      = Inr (P \<and> Q \<and> S \<and> open_cell env m n ofl (r - 2) (c - 1))" for P Q S
    using i by (subst g) (auto simp: open_cell_def)
  have kn: "guarded (r - 2 \<ge> 0 \<and> c + 1 < n \<and> P \<and> Q \<and> S) (free_at env (r - 2) (c + 1) ofl)
      = Inr (P \<and> Q \<and> S \<and> open_cell env m n ofl (r - 2) (c + 1))" for P Q S
    using i by (subst g) (auto simp: open_cell_def)
  have ko: "guarded (r - 1 \<ge> 0 \<and> c - 2 \<ge> 0 \<and> P \<and> Q \<and> S) (free_at env (r - 1) (c - 2) ofl)
      = Inr (P \<and> Q \<and> S \<and> open_cell env m n ofl (r - 1) (c - 2))" for P Q S
    using i by (subst g) (auto simp: open_cell_def)
  have kp: "guarded (r - 1 \<ge> 0 \<and> c + 2 < n \<and> P \<and> Q \<and> S) (free_at env (r - 1) (c + 2) ofl)
      = Inr (P \<and> Q \<and> S \<and> open_cell env m n ofl (r - 1) (c + 2))" for P Q S
    using i by (subst g) (auto simp: open_cell_def)
  have kw: "guarded (r + 2 < m \<and> c - 1 \<ge> 0 \<and> P \<and> Q \<and> S) (free_at env (r + 2) (c - 1) ofl)
      = Inr (P \<and> Q \<and> S \<and> open_cell env m n ofl (r + 2) (c - 1))" for P Q S
    using i by (subst g) (auto simp: open_cell_def)
  have kx: "guarded (r + 2 < m \<and> c + 1 < n \<and> P \<and> Q \<and> S) (free_at env (r + 2) (c + 1) ofl)
      = Inr (P \<and> Q \<and> S \<and> open_cell env m n ofl (r + 2) (c + 1))" for P Q S
    using i by (subst g) (auto simp: open_cell_def)
  have ky: "guarded (r + 1 < m \<and> c - 2 \<ge> 0 \<and> P \<and> Q \<and> S) (free_at env (r + 1) (c - 2) ofl)
      = Inr (P \<and> Q \<and> S \<and> open_cell env m n ofl (r + 1) (c - 2))" for P Q S
    using i by (subst g) (auto simp: open_cell_def)
  have kz: "guarded (r + 1 < m \<and> c + 2 < n \<and> P \<and> Q \<and> S) (free_at env (r + 1) (c + 2) ofl)
      = Inr (P \<and> Q \<and> S \<and> open_cell env m n ofl (r + 1) (c + 2))" for P Q S
    using i by (subst g) (auto simp: open_cell_def)
  show ?thesis
    unfolding getNeighbors_def Let_def fst_conv snd_conv
    by (simp only: up down left right upleft upright downleft downright
          km kn ko kp kw kx ky kz bind_e_Inr)
qed

lemma in_set_entry: "(x \<in> set (entry ok b)) = (ok \<and> x = b)"
  by (cases ok) (simp_all add: entry_def)

lemma Bmove_append: "Bmove (xs @ ys) = Bmove xs @ Bmove ys"
  by (simp add: Bmove_def)

lemma in_set_Bmove_entry: "(s \<in> set (Bmove (entry ok b))) = (ok \<and> s = snd (snd b))"
  by (cases ok) (simp_all add: entry_def Bmove_def)

text \<open>
  Claim C8, as the code has it. From a cell of a rectangular grid \<^verbatim>\<open>getNeighbors\<close>
  returns normally, and each of the eight knight moves \<^verbatim>\<open>m n o p w x y z\<close> is in the
  result exactly when its destination is in bounds and free and all three adjacent
  moves of its quadrant are valid: the straight move, the diagonal move and the second
  straight move (for \<^verbatim>\<open>m\<close>: up, up-left and left).
\<close>

theorem getNeighbors_knight_moves:
  assumes "rect env m n" "0 \<le> r" "r < m" "0 \<le> c" "c < n"
  shows "\<exists>B. getNeighbors (r, c) m n env ofl = Inr B
    \<and> ((r - 2, c - 1, ''m'') \<in> set B) = knight_ok env m n ofl r c (-1) (-1) (-2) (-1)
    \<and> ((r - 2, c + 1, ''n'') \<in> set B) = knight_ok env m n ofl r c (-1) 1 (-2) 1
    \<and> ((r - 1, c - 2, ''o'') \<in> set B) = knight_ok env m n ofl r c (-1) (-1) (-1) (-2)
    \<and> ((r - 1, c + 2, ''p'') \<in> set B) = knight_ok env m n ofl r c (-1) 1 (-1) 2
    \<and> ((r + 2, c - 1, ''w'') \<in> set B) = knight_ok env m n ofl r c 1 (-1) 2 (-1)
    \<and> ((r + 2, c + 1, ''x'') \<in> set B) = knight_ok env m n ofl r c 1 1 2 1
    \<and> ((r + 1, c - 2, ''y'') \<in> set B) = knight_ok env m n ofl r c 1 (-1) 1 (-2)
    \<and> ((r + 1, c + 2, ''z'') \<in> set B) = knight_ok env m n ofl r c 1 1 1 2
    \<and> (''m'' \<in> set (Bmove B)) = knight_ok env m n ofl r c (-1) (-1) (-2) (-1)
    \<and> (''n'' \<in> set (Bmove B)) = knight_ok env m n ofl r c (-1) 1 (-2) 1
    \<and> (''o'' \<in> set (Bmove B)) = knight_ok env m n ofl r c (-1) (-1) (-1) (-2)
    \<and> (''p'' \<in> set (Bmove B)) = knight_ok env m n ofl r c (-1) 1 (-1) 2
    \<and> (''w'' \<in> set (Bmove B)) = knight_ok env m n ofl r c 1 (-1) 2 (-1)
    \<and> (''x'' \<in> set (Bmove B)) = knight_ok env m n ofl r c 1 1 2 1
    \<and> (''y'' \<in> set (Bmove B)) = knight_ok env m n ofl r c 1 (-1) 1 (-2)
    \<and> (''z'' \<in> set (Bmove B)) = knight_ok env m n ofl r c 1 1 1 2"
  unfolding getNeighbors_wf[OF assms]
  apply (rule exI, rule conjI, rule refl)
  apply (intro conjI)
  apply (simp_all only: set_append Un_iff in_set_entry Bmove_append in_set_Bmove_entry
      knight_ok_def snd_conv)
  apply (simp_all)
  apply blast+
  done

text \<open>
  Claim C8 as stated fails: from \<open>(2, 1)\<close> on a 3 by 3 grid whose only obstacle is the
  left cell \<open>(2, 0)\<close>, the destination \<open>(0, 0)\<close>, the up cell \<open>(1, 1)\<close> and the up-left
  cell \<open>(1, 0)\<close> are in bounds and free, and \<^verbatim>\<open>m\<close> is not returned.
\<close>

theorem getNeighbors_m_counterexample:
  "getNeighbors (2, 1) 3 3 [[0, 0, 0], [0, 0, 0], [1, 0, 0]] 1
     = Inr [(1, 1, ''^''), (2, 2, ''>''), (1, 0, ''a''), (1, 2, ''b''), (0, 2, ''n'')]
   \<and> open_cell [[0, 0, 0], [0, 0, 0], [1, 0, 0]] 3 3 1 0 0
   \<and> open_cell [[0, 0, 0], [0, 0, 0], [1, 0, 0]] 3 3 1 1 1
   \<and> open_cell [[0, 0, 0], [0, 0, 0], [1, 0, 0]] 3 3 1 1 0"
  by (simp add: getNeighbors_def guarded_def free_at_def cell_def py_get_def py_index_def
        bind_e_def entry_def open_cell_def Let_def)

theorem getNeighbors_knight_moves_witness:
  "\<exists>B. getNeighbors (2, 1) 3 3 [[0, 0, 0], [0, 0, 0], [0, 0, 0]] 1 = Inr B
     \<and> (0, 0, ''m'') \<in> set B \<and> ''n'' \<in> set (Bmove B) \<and> ''w'' \<notin> set (Bmove B)"
  using getNeighbors_knight_moves[of "[[0, 0, 0], [0, 0, 0], [0, 0, 0]]" 3 3 2 1 1]
  by (simp add: rect_def knight_ok_def open_cell_def) blast


section \<open>The code at the inputs where it departs from the specification\<close>

lemma upt10: "[0..<10] = [0, 1, 2, 3, 4, 5, 6, 7, 8, 9]"
  by (simp add: upt_rec)

text \<open>
  Claim C1 (the \<^verbatim>\<open>vactions\<close> list is the Cartesian product of the v-sample ranges).
  \<^verbatim>\<open>getWorldActionsForCell\<close> computes \<^verbatim>\<open>vactionspace\<close> and then stores
  \<^verbatim>\<open>uactionspace\<close> under the key \<^verbatim>\<open>"vactions"\<close>. With one source, \<open>u = 0\<close>,
  \<open>v = 100\<close> and error \<open>9\<close> at the cell, the returned \<^verbatim>\<open>vactions\<close> are the u-samples
  \<open>-9, -7, ..., 9\<close>, while the product of the v-sample ranges is \<open>91, 93, ..., 109\<close>.
\<close>

theorem getWorldActionsForCell_vactions:
  "getWorldActionsForCell 0 0 [[[0]]] [[[100]]] [9]
     = Inr \<lparr>uactions = [[-9], [-7], [-5], [-3], [-1], [1], [3], [5], [7], [9]],
            vactions = [[-9], [-7], [-5], [-3], [-1], [1], [3], [5], [7], [9]],
            num = 10\<rparr>
   \<and> itertools_product [linspace (100 - 9) (100 + 9) 10]
     = [[91], [93], [95], [97], [99], [101], [103], [105], [107], [109]]"
  by (simp add: getWorldActionsForCell_def sample_ranges_def cell3_def cell_def py_get_def
        py_index_def linspace_def upt10 Let_def)

text \<open>
  Claim C2 (a cell is pruned only if all eight neighbors hold \<^verbatim>\<open>D_max\<close>). The
  condition of \<^verbatim>\<open>getNewCost\<close> tests the cell above twice and never the cell below.
  On a free 3 by 3 grid with target \<open>(2, 1)\<close> at cost 0 and every other cell at
  \<^verbatim>\<open>D_max = 1000\<close>, the cell \<open>(1, 1)\<close> directly above the target is assigned
  \<^verbatim>\<open>D_max\<close> and \<^verbatim>\<open>"-"\<close> without a payoff matrix being built.
\<close>

theorem getNewCost_prunes_above_target:
  "getNewCost clo_row clo_col external (1, 1) (2, 1) [[0, 0, 0], [0, 0, 0], [0, 0, 0]] m n
     [[1000, 1000, 1000], [1000, 1000, 1000], [1000, 0, 1000]] 1000
     trav ugrids vgrids egrids wgrids = Inr (1000, ''-'')"
  by (simp add: getNewCost_def surrounded_def is_dmax_def and_e_def cell_def py_get_def
        py_index_def Let_def)

text \<open>
  Claim C3 (work is the magnitude of the difference between the desired vector and the
  resultant environmental vector). \<^verbatim>\<open>getVectorDiff\<close> subtracts both of its vectors
  from zero, so the work is the magnitude of their sum. With the environment's resultant
  \<open>(1, 0)\<close> equal to the desired vector \<open>(1, 0)\<close>, the difference is the zero vector and
  the code returns work 2.
\<close>

theorem getOutcome_work_is_sum:
  "getOutcome ''>'' [1] [0] [1] east_traveler D_max None None None = Inr (2, 2)
   \<and> getVectorSum [1] [0] [1] = Inr (1, 0)
   \<and> magdir2uv (speed_cps east_traveler) 0 = (1, 0)"
  by (simp add: getOutcome_def getVectorSum_def getVectorDiff_def dict_get_def magdir2uv_def
        uv2magdir_def east_traveler_def py_get_def py_index_def upt_rec)

text \<open>
  Claim C4 (the errors and weights used for cell \<open>i\<close> are those stored at cell \<open>i\<close>).
  \<^verbatim>\<open>f_work\<close> indexes the error and weight grids with \<^verbatim>\<open>row\<close> and \<^verbatim>\<open>col\<close> of the
  enclosing scope, not with \<open>i\<close>. On 2 by 2 grids these are \<open>(1, 1)\<close>: evaluating cell
  \<open>(0, 0)\<close>, the error used is the 0 stored at \<open>(1, 1)\<close>, not the 5 stored at
  \<open>(0, 0)\<close>, and replacing the values stored at \<open>(0, 0)\<close> changes nothing.
\<close>

theorem f_work_ignores_cell_values:
  "closure_cells (Some 1) (Some 1) [[[5, 0], [0, 0]]] = Inr [0]
   \<and> closure_cells (Some 1) (Some 1) [[[7, 0], [0, 1]]] = Inr [1]
   \<and> f_work (Some 1) (Some 1) external (0, 0) m n c2g D_max env trav ugrids vgrids
       [[[5, 0], [0, 0]]] [[[7, 0], [0, 1]]] method
     = f_work (Some 1) (Some 1) external (0, 0) m n c2g D_max env trav ugrids vgrids
       [[[0, 0], [0, 0]]] [[[1, 0], [0, 1]]] method"
  by (simp add: f_work_def closure_cells_def closure_var_def py_get_def py_index_def)

subsection \<open>A run that returns after evaluating a cell through \<^verbatim>\<open>f_work\<close>\<close>

text \<open>
  Fictitious play on a 4 by 10 matrix whose rows are constant and whose third row is the
  cheapest: after the first iteration the row player always plays row 2 and the column
  player column 0.
\<close>

lemma replicate10: "replicate 10 v = [v, v, v, v, v, v, v, v, v, v]"
  by (simp add: eval_nat_numeral)

lemma upt4: "[0..<4] = [0, 1, 2, 3]"
  by (simp add: upt_rec)

lemma williams_step_dominant:
  assumes "x < y" "a < b"
  shows "williams_step [replicate 10 x, replicate 10 x, replicate 10 y, replicate 10 x]
           (replicate 10 [x, x, y, x]) (map int [0..<10]) (map (\<lambda>k. - int k) [0..<4])
           \<lparr>rowcnt = [1, 0, k, 0], colcnt = Suc k # replicate 9 0,
            row_cum_payoff = [a, a, b, a], col_cum_payoff = replicate 10 c, active = 2\<rparr>
       = Inr \<lparr>rowcnt = [1, 0, Suc k, 0], colcnt = Suc (Suc k) # replicate 9 0,
              row_cum_payoff = [x + a, x + a, y + b, x + a],
              col_cum_payoff = replicate 10 (y + c), active = 2\<rparr>"
  using assms
  by (simp add: williams_step_def py_incr_def py_index_def py_get_def map_add_e_def
        py_min_def py_max_def upt10 upt4 replicate10 min_def max_def less_eq_prod_def)

lemma williams_step_first:
  assumes "x < y"
  shows "williams_step [replicate 10 x, replicate 10 x, replicate 10 y, replicate 10 x]
           (replicate 10 [x, x, y, x]) (map int [0..<10]) (map (\<lambda>k. - int k) [0..<4])
           \<lparr>rowcnt = replicate 4 0, colcnt = replicate 10 0,
            row_cum_payoff = replicate 4 0, col_cum_payoff = replicate 10 0, active = 0\<rparr>
       = Inr \<lparr>rowcnt = [1, 0, 0, 0], colcnt = Suc 0 # replicate 9 0,
              row_cum_payoff = [x, x, y, x],
              col_cum_payoff = replicate 10 x, active = 2\<rparr>"
  using assms
  by (simp add: williams_step_def py_incr_def py_index_def py_get_def map_add_e_def
        py_min_def py_max_def upt10 upt4 replicate10 min_def max_def less_eq_prod_def
        eval_nat_numeral)

lemma williams_loop_dominant:
  assumes "x < y"
  shows "a < b \<Longrightarrow>
    \<exists>a' b' c'. a' < b' \<and>
      williams_loop j [replicate 10 x, replicate 10 x, replicate 10 y, replicate 10 x]
           (replicate 10 [x, x, y, x]) (map int [0..<10]) (map (\<lambda>k. - int k) [0..<4])
           \<lparr>rowcnt = [1, 0, k, 0], colcnt = Suc k # replicate 9 0,
            row_cum_payoff = [a, a, b, a], col_cum_payoff = replicate 10 c, active = 2\<rparr>
       = Inr \<lparr>rowcnt = [1, 0, k + j, 0], colcnt = Suc (k + j) # replicate 9 0,
              row_cum_payoff = [a', a', b', a'],
              col_cum_payoff = replicate 10 c', active = 2\<rparr>"
proof (induction j arbitrary: a b c k)
  case 0
  then show ?case by auto
next
  case (Suc j)
  from assms Suc.prems have "x + a < y + b" by simp
  from Suc.IH[OF this, of "Suc k" "y + c"] show ?case
    by (simp only: williams_loop.simps williams_step_dominant[OF assms Suc.prems] bind_e_Inr
          add_Suc add_Suc_right)
qed

lemma zip_star_row_constant:
  "zip_star [replicate 10 x, replicate 10 x, replicate 10 y, replicate 10 (x::real)]
     = replicate 10 [x, x, y, x]"
  by (simp add: zip_star_def replicate10 upt10)

lemma solve_williams_dominant:
  assumes "h < g"
  shows "solve_williams [replicate 10 g, replicate 10 g, replicate 10 h, replicate 10 g] 100
       = Inr ([1 / 100, 0, 99 / 100, 0], 1 # replicate 9 0)"
proof -
  let ?pm = "[replicate 10 (- g), replicate 10 (- g), replicate 10 (- h), replicate 10 (- g)]"
  let ?tr = "replicate 10 [- g, - g, - h, - g]"
  let ?cp = "map int [0..<10]"
  let ?rp = "map (\<lambda>k. - int k) [0..<4]"
  from assms have xy: "- g < - h" by simp
  have first: "williams_loop 100 ?pm ?tr ?cp ?rp
           \<lparr>rowcnt = replicate 4 0, colcnt = replicate 10 0,
            row_cum_payoff = replicate 4 0, col_cum_payoff = replicate 10 0, active = 0\<rparr>
      = williams_loop 99 ?pm ?tr ?cp ?rp
           \<lparr>rowcnt = [1, 0, 0, 0], colcnt = Suc 0 # replicate 9 0,
            row_cum_payoff = [- g, - g, - h, - g],
            col_cum_payoff = replicate 10 (- g), active = 2\<rparr>"
  proof -
    have "(100::nat) = Suc 99" by simp
    then show ?thesis
      by (simp only: williams_loop.simps williams_step_first[OF xy] bind_e_Inr)
  qed
  from williams_loop_dominant[OF xy xy, of 99 0 "- g"] obtain a' b' c' where
    rest: "williams_loop 99 ?pm ?tr ?cp ?rp
           \<lparr>rowcnt = [1, 0, 0, 0], colcnt = Suc 0 # replicate 9 0,
            row_cum_payoff = [- g, - g, - h, - g],
            col_cum_payoff = replicate 10 (- g), active = 2\<rparr>
       = Inr \<lparr>rowcnt = [1, 0, 99, 0], colcnt = Suc 99 # replicate 9 0,
              row_cum_payoff = [a', a', b', a'],
              col_cum_payoff = replicate 10 c', active = 2\<rparr>"
    by auto
  have pm: "map (map uminus) [replicate 10 g, replicate 10 g, replicate 10 h, replicate 10 g] = ?pm"
    by simp
  have lens: "length ?pm = 4" "length ?tr = 10"
    by simp_all
  show ?thesis
    unfolding solve_williams_def Let_def pm zip_star_row_constant
    apply (simp only: lens first rest bind_e_Inr)
    apply (simp add: py_max_def py_min_def replicate10)
    done
qed

lemma funpow_max_0_1: "(max (0::real) ^^ n) 1 = 1"
  by (induction n) simp_all

lemma solveGame_dominant:
  assumes "h < g"
  shows "solveGame external [replicate 10 g, replicate 10 g, replicate 10 h, replicate 10 g] 0
       = Inr ([1 / 100, 0, 99 / 100, 0], 1 # replicate 9 0, 2, 0, h)"
  apply (simp add: solveGame_def solve_williams_dominant[OF assms])
  apply (simp add: argmax_def py_max_def cell_def py_get_def py_index_def replicate10 max_def
      funpow_max_0_1)
  done

text \<open>
  The free 3 by 3 grid with one force source that is zero everywhere, zero error and
  weight 1. From the cell \<open>(1, 1)\<close>, with the target \<open>(1, 0)\<close> at cost 0 and every other
  cell at \<open>D\<close>, each of the four moves needs work 1; only \<^verbatim>\<open>"<"\<close> leads to the target.
\<close>

lemma getOutcome_zero_field:
  assumes "action2radians trav mv = Some a" "speed_cps trav = 1"
  shows "getOutcome mv [0] [0] [1] trav D (Some c2g) (Some r) (Some c)
       = bind_e (py_get c2g 0) (\<lambda>row0. bind_e (move_cost mv 1 c2g r c) (\<lambda>workc. Inr (workc, 1)))"
  by (simp add: getOutcome_def getVectorSum_def getVectorDiff_def dict_get_def magdir2uv_def
        uv2magdir_def py_get_def py_index_def upt_rec assms)

lemma getWorldActionsForCell_zero_field:
  "getWorldActionsForCell 1 1 [[[0, 0, 0], [0, 0, 0], [0, 0, 0]]] [[[0, 0, 0], [0, 0, 0], [0, 0, 0]]] [0]
     = Inr \<lparr>uactions = replicate 10 [0], vactions = replicate 10 [0], num = 10\<rparr>"
  by (simp add: getWorldActionsForCell_def sample_ranges_def cell3_def cell_def py_get_def
        py_index_def linspace_def upt10 replicate10 Let_def)

lemma getNeighbors_center:
  "getNeighbors (1, 1) 3 3 [[0, 0, 0], [0, 0, 0], [0, 0, 0]] 1
     = Inr [(0, 1, ''^''), (2, 1, ''v''), (1, 0, ''<''), (1, 2, ''>''),
            (0, 0, ''a''), (0, 2, ''b''), (2, 0, ''c''), (2, 2, ''d'')]"
  by (simp add: getNeighbors_def guarded_def free_at_def cell_def py_get_def py_index_def
        entry_def Let_def)


lemma outcome_center:
  "getOutcome ''^'' [0] [0] [1] traveler_4way D (Some [[D, D, D], [0, D, D], [D, D, D]])
     (Some 1) (Some 1) = Inr (1 + D, 1)"
  "getOutcome ''v'' [0] [0] [1] traveler_4way D (Some [[D, D, D], [0, D, D], [D, D, D]])
     (Some 1) (Some 1) = Inr (1 + D, 1)"
  "getOutcome ''<'' [0] [0] [1] traveler_4way D (Some [[D, D, D], [0, D, D], [D, D, D]])
     (Some 1) (Some 1) = Inr (1, 1)"
  "getOutcome ''>'' [0] [0] [1] traveler_4way D (Some [[D, D, D], [0, D, D], [D, D, D]])
     (Some 1) (Some 1) = Inr (1 + D, 1)"
proof -
  have sp: "speed_cps traveler_4way = 1"
    by (simp add: traveler_4way_def)
  have a: "action2radians traveler_4way ''^'' = Some (pi / 2)"
      "action2radians traveler_4way ''v'' = Some (pi * 1.5)"
      "action2radians traveler_4way ''<'' = Some pi"
      "action2radians traveler_4way ''>'' = Some 0"
    by (simp_all add: traveler_4way_def)
  note mc = move_cost_def plus_cell_def cell_def py_get_def py_index_def
  show "getOutcome ''^'' [0] [0] [1] traveler_4way D (Some [[D, D, D], [0, D, D], [D, D, D]])
     (Some 1) (Some 1) = Inr (1 + D, 1)"
    by (simp add: getOutcome_zero_field[OF a(1) sp] mc)
  show "getOutcome ''v'' [0] [0] [1] traveler_4way D (Some [[D, D, D], [0, D, D], [D, D, D]])
     (Some 1) (Some 1) = Inr (1 + D, 1)"
    by (simp add: getOutcome_zero_field[OF a(2) sp] mc)
  show "getOutcome ''<'' [0] [0] [1] traveler_4way D (Some [[D, D, D], [0, D, D], [D, D, D]])
     (Some 1) (Some 1) = Inr (1, 1)"
    by (simp add: getOutcome_zero_field[OF a(3) sp] mc)
  show "getOutcome ''>'' [0] [0] [1] traveler_4way D (Some [[D, D, D], [0, D, D], [D, D, D]])
     (Some 1) (Some 1) = Inr (1 + D, 1)"
    by (simp add: getOutcome_zero_field[OF a(4) sp] mc)
qed

lemma game_row_center:
  "game_row ''^'' [''^'', ''v'', ''<'', ''>'', ''a'', ''b'', ''c'', ''d'']
           \<lparr>uactions = replicate 10 [0], vactions = replicate 10 [0], num = 10\<rparr>
           [1] traveler_4way D (Some [[D, D, D], [0, D, D], [D, D, D]]) 1 1
       = Inr (replicate 10 (1 + D, 1))"
  "game_row ''v'' [''^'', ''v'', ''<'', ''>'', ''a'', ''b'', ''c'', ''d'']
           \<lparr>uactions = replicate 10 [0], vactions = replicate 10 [0], num = 10\<rparr>
           [1] traveler_4way D (Some [[D, D, D], [0, D, D], [D, D, D]]) 1 1
       = Inr (replicate 10 (1 + D, 1))"
  "game_row ''<'' [''^'', ''v'', ''<'', ''>'', ''a'', ''b'', ''c'', ''d'']
           \<lparr>uactions = replicate 10 [0], vactions = replicate 10 [0], num = 10\<rparr>
           [1] traveler_4way D (Some [[D, D, D], [0, D, D], [D, D, D]]) 1 1
       = Inr (replicate 10 (1, 1))"
  "game_row ''>'' [''^'', ''v'', ''<'', ''>'', ''a'', ''b'', ''c'', ''d'']
           \<lparr>uactions = replicate 10 [0], vactions = replicate 10 [0], num = 10\<rparr>
           [1] traveler_4way D (Some [[D, D, D], [0, D, D], [D, D, D]]) 1 1
       = Inr (replicate 10 (1 + D, 1))"
  by (simp_all add: game_row_def upt10 replicate10 py_get_def py_index_def outcome_center)

lemma getGameForCell_center:
  "getGameForCell 1 1 traveler_4way [[[0, 0, 0], [0, 0, 0], [0, 0, 0]]]
       [[[0, 0, 0], [0, 0, 0], [0, 0, 0]]] [0] [1] [[0, 0, 0], [0, 0, 0], [0, 0, 0]] D
       (Some [[D, D, D], [0, D, D], [D, D, D]])
     = Inr ([replicate 10 (1 + D), replicate 10 (1 + D), replicate 10 1, replicate 10 (1 + D)],
            [replicate 10 1, replicate 10 1, replicate 10 1, replicate 10 1])"
proof -
  have sh: "shape0 [[0, 0, 0], [0, 0, 0], [0::int, 0, 0]] = 3"
      "shape1 [[0, 0, 0], [0, 0, 0], [0::int, 0, 0]] = 3"
    by (simp_all add: shape0_def shape1_def)
  have bm: "Bmove [(0, 1, ''^''), (2, 1, ''v''), (1, 0, ''<''), (1, 2, ''>''),
            (0, 0, ''a''), (0, 2, ''b''), (2, 0, ''c''), (2, 2, ''d'')]
      = [''^'', ''v'', ''<'', ''>'', ''a'', ''b'', ''c'', ''d'']"
    by (simp add: Bmove_def)
  have as: "actionspace traveler_4way = [''^'', ''v'', ''<'', ''>'']"
    by (simp add: traveler_4way_def)
  show ?thesis
    by (simp only: getGameForCell_def getWorldActionsForCell_zero_field sh getNeighbors_center
          bind_e_Inr bm as mapM_e.simps game_row_center list.map map_replicate fst_conv snd_conv)
qed

lemma f_work_center:
  assumes "0 < D"
  shows "f_work (Some 2) (Some 2) external (1, 1) m n [[D, D, D], [0, D, D], [D, D, D]] D
           [[0, 0, 0], [0, 0, 0], [0, 0, 0]] traveler_4way
           [[[0, 0, 0], [0, 0, 0], [0, 0, 0]]] [[[0, 0, 0], [0, 0, 0], [0, 0, 0]]]
           [[[0, 0, 0], [0, 0, 0], [0, 0, 0]]] [[[1, 1, 1], [1, 1, 1], [1, 1, 1]]] 0
       = Inr (1, ''<'')"
proof -
  have e: "closure_cells (Some 2) (Some 2) [[[0, 0, 0], [0, 0, 0], [0, 0, 0]]] = Inr [0]"
      "closure_cells (Some 2) (Some 2) [[[1, 1, 1], [1, 1, 1], [1, 1, 1]]] = Inr [1]"
    by (simp_all add: closure_cells_def closure_var_def py_get_def py_index_def)
  from assms have "(1::real) < 1 + D" by simp
  note sol = solveGame_dominant[OF this, of external]
  have as: "py_get (actionspace traveler_4way) (int 2) = Inr ''<''"
    by (simp add: traveler_4way_def py_get_def py_index_def)
  show ?thesis
    by (simp only: f_work_def e bind_e_Inr fst_conv snd_conv getGameForCell_center prod.case
          sol as)
qed

lemma sweep_center:
  assumes "1 < D"
  shows "sweep \<lparr>in_traveler = traveler_4way, in_occgrid = [[0, 0, 0], [0, 0, 0], [0, 0, 0]],
            in_ugrids = [[[0, 0, 0], [0, 0, 0], [0, 0, 0]]],
            in_vgrids = [[[0, 0, 0], [0, 0, 0], [0, 0, 0]]],
            in_egrids = [[[0, 0, 0], [0, 0, 0], [0, 0, 0]]],
            in_wgrids = [[[1, 1, 1], [1, 1, 1], [1, 1, 1]]],
            in_bounds = \<lparr>upperleft = (0, 0), lowerright = (2, 2)\<rparr>, in_D_max = D,
            in_row = Some 2, in_col = Some 2, in_external = external\<rparr>
           ([[D, D, D], [D, D, D], [D, D, D]],
            [[''-'', ''-'', ''-''], [''-'', ''-'', ''-''], [''-'', ''-'', ''-'']])
       = Inr ([[D, D, D], [0, 1, D], [D, D, D]],
              [[''-'', ''-'', ''-''], [''*'', ''<'', ''-''], [''-'', ''-'', ''-'']])"
proof -
  from assms have D: "0 < D" "D \<noteq> 0" "0 \<noteq> D" "\<not> D \<le> 1" by simp_all
  have tg: "target traveler_4way = (1, 0)" by (simp add: traveler_4way_def)
  show ?thesis
    by (simp add: sweep_def while_visit.simps visit_def getNewCost_def surrounded_def
        is_dmax_def and_e_def cell_def cell_set_def py_get_def py_index_def getNeighbors_def
        guarded_def free_at_def entry_def enqueue_def within_bounds_def shape0_def shape1_def
        Let_def tg D f_work_center[OF D(1)])
qed

lemma sample_D_max_big: "1 < sample_D_max"
proof -
  have "1 < sqrt 2" by simp
  then have "1 < 40000000000000000000000 * sqrt 2" by linarith
  then show ?thesis by (simp add: sample_D_max_def)
qed

text \<open>For every input: whenever \<^verbatim>\<open>getCost2go\<close> returns, the work-to-go grid is the grid
  of zeros it was created as.\<close>

lemma getCost2go_work2go_zero:
  "(case getCost2go external trav occgrid ugrids vgrids egrids wgrids bnds iterations of
      Inl e \<Rightarrow> True
    | Inr (c2g, w2g, a2g, history) \<Rightarrow>
        w2g = replicate (length occgrid) (replicate (nat (shape1 occgrid)) 0))"
  by (auto simp: getCost2go_def Let_def bind_e_def split: option.splits sum.splits)

text \<open>
  Claim C5 (the returned work-to-go grid holds each evaluated cell's immediate effort).
  \<^verbatim>\<open>getCost2go\<close> never writes \<^verbatim>\<open>work2go\<close>. On the free 3 by 3 grid with target
  \<open>(1, 0)\<close>, bounds \<open>(0, 0)\<close> to \<open>(2, 2)\<close> and one sweep, the run returns; the cell
  \<open>(1, 1)\<close> is evaluated by \<^verbatim>\<open>f_work\<close>, which solves its game and chooses the move
  \<^verbatim>\<open>"<"\<close> at cost 1; the immediate work of that move is 1; and the returned work-to-go
  grid holds 0 at \<open>(1, 1)\<close>, as at every cell.
\<close>

theorem getCost2go_work2go_unwritten:
  "getCost2go external traveler_4way [[0, 0, 0], [0, 0, 0], [0, 0, 0]]
      [[[0, 0, 0], [0, 0, 0], [0, 0, 0]]] [[[0, 0, 0], [0, 0, 0], [0, 0, 0]]]
      [[[0, 0, 0], [0, 0, 0], [0, 0, 0]]] [[[1, 1, 1], [1, 1, 1], [1, 1, 1]]]
      (Some \<lparr>upperleft = (0, 0), lowerright = (2, 2)\<rparr>) (Some 1)
     = Inr ([[sample_D_max, sample_D_max, sample_D_max], [0, 1, sample_D_max],
             [sample_D_max, sample_D_max, sample_D_max]],
            [[0, 0, 0], [0, 0, 0], [0, 0, 0]],
            [[''-'', ''-'', ''-''], [''*'', ''<'', ''-''], [''-'', ''-'', ''-'']], None)
   \<and> f_work (Some 2) (Some 2) external (1, 1) 3 3
        [[sample_D_max, sample_D_max, sample_D_max], [0, sample_D_max, sample_D_max],
         [sample_D_max, sample_D_max, sample_D_max]] sample_D_max
        [[0, 0, 0], [0, 0, 0], [0, 0, 0]] traveler_4way
        [[[0, 0, 0], [0, 0, 0], [0, 0, 0]]] [[[0, 0, 0], [0, 0, 0], [0, 0, 0]]]
        [[[0, 0, 0], [0, 0, 0], [0, 0, 0]]] [[[1, 1, 1], [1, 1, 1], [1, 1, 1]]] 0
     = Inr (1, ''<'')
   \<and> getOutcome ''<'' [0] [0] [1] traveler_4way sample_D_max
        (Some [[sample_D_max, sample_D_max, sample_D_max], [0, sample_D_max, sample_D_max],
               [sample_D_max, sample_D_max, sample_D_max]]) (Some 1) (Some 1)
     = Inr (1, 1)"
proof -
  let ?b = "\<lparr>upperleft = (0, 0), lowerright = (2, 2)\<rparr>"
  have eq: "real_of_int (abs (fst (lowerright ?b) - fst (upperleft ?b))
                * abs (snd (lowerright ?b) - snd (upperleft ?b)))
              * (sqrt 2 * 10) * 100000000000 * 10000000000 = sample_D_max"
    by (simp add: sample_D_max_def)
  have pos: "0 < sample_D_max" using sample_D_max_big by simp
  have run: "getCost2go external traveler_4way [[0, 0, 0], [0, 0, 0], [0, 0, 0]]
      [[[0, 0, 0], [0, 0, 0], [0, 0, 0]]] [[[0, 0, 0], [0, 0, 0], [0, 0, 0]]]
      [[[0, 0, 0], [0, 0, 0], [0, 0, 0]]] [[[1, 1, 1], [1, 1, 1], [1, 1, 1]]]
      (Some ?b) (Some 1)
     = Inr ([[sample_D_max, sample_D_max, sample_D_max], [0, 1, sample_D_max],
             [sample_D_max, sample_D_max, sample_D_max]],
            [[0, 0, 0], [0, 0, 0], [0, 0, 0]],
            [[''-'', ''-'', ''-''], [''*'', ''<'', ''-''], [''-'', ''-'', ''-'']], None)"
    unfolding getCost2go_def option.case Let_def eq
    by (simp add: shape1_def eval_nat_numeral sweep_center[OF sample_D_max_big])
  from run f_work_center[OF pos] outcome_center(3) show ?thesis
    by simp
qed

text \<open>
  Claim C7 (\<^verbatim>\<open>getOutcome\<close> with move \<^verbatim>\<open>"*"\<close> and a cost-to-go grid returns
  \<^verbatim>\<open>totalCost = D_max\<close>). The branch for \<^verbatim>\<open>"*"\<close> reads the undefined name
  \<^verbatim>\<open>d_max\<close>: for all arguments the call raises and returns nothing.
\<close>

theorem getOutcome_star_raises:
  "\<exists>e. getOutcome ''*'' us vs weights trav D_max (Some c2g) (Some row) (Some col) = Inl e"
  by (auto simp: getOutcome_def move_cost_def bind_e_def split: sum.splits prod.splits)

lemma getOutcome_star_NameError:
  "getOutcome ''*'' [0] [0] [1] east_traveler 1000 (Some [[0]]) (Some 0) (Some 0) = Inl NameError"
  by (simp add: getOutcome_def getVectorSum_def getVectorDiff_def dict_get_def magdir2uv_def
        uv2magdir_def east_traveler_def py_get_def py_index_def upt_rec move_cost_def)

text \<open>
  Claim C9 (a neighbor is enqueued iff it lies in the half-open bounds rectangle, the
  upper-left row and column included). The test of \<^verbatim>\<open>getCost2go\<close> is strict on all four
  sides: no cell of the upper-left row or of the upper-left column passes it. With bounds
  \<open>(0, 0)\<close> to \<open>(3, 3)\<close> the neighbor \<open>(0, 1)\<close> is not enqueued, the neighbor \<open>(2, 1)\<close> is.
\<close>

theorem enqueue_excludes_upperleft_edge:
  "within_bounds bnd (fst (upperleft bnd), c) = False
   \<and> within_bounds bnd (r, snd (upperleft bnd)) = False
   \<and> enqueue \<lparr>upperleft = (0, 0), lowerright = (3, 3)\<rparr> (0, 1, ''^'') ([], {}) = ([], {})
   \<and> enqueue \<lparr>upperleft = (0, 0), lowerright = (3, 3)\<rparr> (2, 1, ''v'') ([], {}) = ([(2, 1)], {(2, 1)})"
  by (simp add: within_bounds_def enqueue_def Let_def)


section \<open>Properties of the game solver\<close>

lemma py_index_in_range: "0 \<le> i \<Longrightarrow> i < int (length xs) \<Longrightarrow> py_index xs i = Inr (nat i)"
  by (simp add: py_index_def)

lemma py_get_in_range: "0 \<le> i \<Longrightarrow> i < int (length xs) \<Longrightarrow> py_get xs i = Inr (xs ! nat i)"
  by (simp add: py_get_def py_index_in_range)

lemma py_incr_in_range:
  "0 \<le> i \<Longrightarrow> i < int (length cnt) \<Longrightarrow> py_incr cnt i = Inr (cnt[nat i := cnt ! nat i + 1])"
  by (simp add: py_incr_def py_index_in_range)

lemma sum_list_incr:
  "j < length cnt \<Longrightarrow> sum_list (cnt[j := Suc (cnt ! j)]) = Suc (sum_list (cnt::nat list))"
  by (simp add: sum_list_update)

lemma fold_min_in_set: "fold min xs (x::'a::linorder) \<in> set (x # xs)"
  by (induction xs arbitrary: x) (auto simp: min_def)

lemma fold_max_in_set: "fold max xs (x::'a::linorder) \<in> set (x # xs)"
  by (induction xs arbitrary: x) (auto simp: max_def)

lemma py_min_in_set: "xs \<noteq> [] \<Longrightarrow> \<exists>x. py_min xs = Inr x \<and> x \<in> set xs"
  using fold_min_in_set by (cases xs) (auto simp: py_min_def)

lemma py_max_in_set: "xs \<noteq> [] \<Longrightarrow> \<exists>x. py_max xs = Inr x \<and> x \<in> set xs"
  using fold_max_in_set by (cases xs) (auto simp: py_max_def)

lemma map_add_e_length:
  "length xs = length ys \<Longrightarrow> \<exists>zs. map_add_e xs ys = Inr zs \<and> length zs = length ys"
  by (simp add: map_add_e_def)

lemma williams_step_inv:
  assumes inv: "williams_inv m n k s"
    and pm: "length pm = m" "\<forall>r \<in> set pm. length r = n"
    and tr: "length tr = n" "\<forall>c \<in> set tr. length c = m"
    and pos: "colpos = map int [0..<n]" "rowpos = map (\<lambda>k. - int k) [0..<m]"
    and ne: "0 < m" "0 < n"
  shows "\<exists>s'. williams_step pm tr colpos rowpos s = Inr s' \<and> williams_inv m n (Suc k) s'"
proof -
  from inv have a: "0 \<le> active s" "active s < int (length (rowcnt s))" "nat (active s) < m"
    by (auto simp: williams_inv_def)
  have rc: "py_incr (rowcnt s) (active s) = Inr ((rowcnt s)[nat (active s) := rowcnt s ! nat (active s) + 1])"
    using a by (simp add: py_incr_in_range)
  have prow: "py_get pm (active s) = Inr (pm ! nat (active s))"
    using a inv pm by (simp add: py_get_in_range williams_inv_def)
  have "length (pm ! nat (active s)) = length (col_cum_payoff s)"
    using a pm inv by (simp add: williams_inv_def)
  from map_add_e_length[OF this] obtain ccp where
    ccp: "map_add_e (pm ! nat (active s)) (col_cum_payoff s) = Inr ccp" "length ccp = n"
    using inv by (auto simp: williams_inv_def)
  have "zip ccp colpos \<noteq> []" using ccp ne pos by (cases ccp) auto
  from py_min_in_set[OF this] obtain mn where
    mn: "py_min (zip ccp colpos) = Inr mn" "mn \<in> set (zip ccp colpos)" by auto
  then have "snd mn \<in> set colpos" by (metis in_set_zipE prod.collapse)
  then have c: "0 \<le> snd mn" "snd mn < int n" "nat (snd mn) < n" using pos by auto
  have cc: "py_incr (colcnt s) (snd mn) = Inr ((colcnt s)[nat (snd mn) := colcnt s ! nat (snd mn) + 1])"
    using c inv by (simp add: py_incr_in_range williams_inv_def)
  have tcol: "py_get tr (snd mn) = Inr (tr ! nat (snd mn))"
    using c tr by (simp add: py_get_in_range)
  have "length (tr ! nat (snd mn)) = length (row_cum_payoff s)"
    using c tr inv by (simp add: williams_inv_def)
  from map_add_e_length[OF this] obtain rcp where
    rcp: "map_add_e (tr ! nat (snd mn)) (row_cum_payoff s) = Inr rcp" "length rcp = m"
    using inv by (auto simp: williams_inv_def)
  have "zip rcp rowpos \<noteq> []" using rcp ne pos by (cases rcp) auto
  from py_max_in_set[OF this] obtain mx where
    mx: "py_max (zip rcp rowpos) = Inr mx" "mx \<in> set (zip rcp rowpos)" by auto
  then have "snd mx \<in> set rowpos" by (metis in_set_zipE prod.collapse)
  then have r: "0 \<le> - snd mx" "- snd mx < int m" using pos by auto
  have step: "williams_step pm tr colpos rowpos s =
      Inr \<lparr>rowcnt = (rowcnt s)[nat (active s) := rowcnt s ! nat (active s) + 1],
           colcnt = (colcnt s)[nat (snd mn) := colcnt s ! nat (snd mn) + 1],
           row_cum_payoff = rcp, col_cum_payoff = ccp, active = - snd mx\<rparr>"
    by (simp add: williams_step_def rc prow ccp mn cc tcol rcp mx)
  show ?thesis
    unfolding step using inv a c r rcp ccp
    by (simp add: williams_inv_def sum_list_incr)
qed

lemma williams_loop_inv:
  assumes pm: "length pm = m" "\<forall>r \<in> set pm. length r = n"
    and tr: "length tr = n" "\<forall>c \<in> set tr. length c = m"
    and pos: "colpos = map int [0..<n]" "rowpos = map (\<lambda>k. - int k) [0..<m]"
    and ne: "0 < m" "0 < n"
  shows "williams_inv m n k s \<Longrightarrow>
    \<exists>s'. williams_loop j pm tr colpos rowpos s = Inr s' \<and> williams_inv m n (k + j) s'"
proof (induction j arbitrary: k s)
  case 0
  then show ?case by simp
next
  case (Suc j)
  from williams_step_inv[OF Suc.prems pm tr pos ne] obtain s1 where
    s1: "williams_step pm tr colpos rowpos s = Inr s1" "williams_inv m n (Suc k) s1" by auto
  from Suc.IH[OF s1(2)] s1(1) show ?case by auto
qed

lemma zip_star_rect:
  assumes "pm \<noteq> []" "\<forall>r \<in> set pm. length r = n"
  shows "length (zip_star pm) = n" "\<forall>c \<in> set (zip_star pm). length c = length pm"
proof -
  obtain r rs where pm: "pm = r # rs" using assms(1) by (cases pm) auto
  have "fold min (map length rs) (length r) = n"
    using assms(2) unfolding pm
  proof (induction rs)
    case Nil
    then show ?case by simp
  next
    case (Cons a rs)
    then show ?case by simp
  qed
  then show "length (zip_star pm) = n" "\<forall>c \<in> set (zip_star pm). length c = length pm"
    by (auto simp: zip_star_def pm)
qed

lemma sum_list_scaled: "sum_list (map (\<lambda>k. real k / d) cnt) = real (sum_list cnt) / d"
  by (induction cnt) (simp_all add: add_divide_distrib)

lemma solve_williams_wf:
  assumes "payoff_wf game"
  shows "\<exists>y z. solve_williams game 100 = Inr (y, z)
     \<and> length y = length game \<and> length z = length (hd game)
     \<and> list_all (\<lambda>p. 0 \<le> p) y \<and> sum_list y = 1
     \<and> list_all (\<lambda>p. 0 \<le> p) z \<and> sum_list z = 1"
proof -
  define m where "m = length game"
  define n where "n = length (hd game)"
  define pm where "pm = map (map uminus) game"
  define tr where "tr = zip_star pm"
  define s0 where "s0 = \<lparr>rowcnt = replicate m 0, colcnt = replicate n 0,
      row_cum_payoff = replicate m (0::real), col_cum_payoff = replicate n (0::real),
      active = (0::int)\<rparr>"
  from assms have g: "game \<noteq> []" "hd game \<noteq> []"
      and rows: "\<forall>r \<in> set game. length r = n"
    unfolding payoff_wf_def list_all_iff n_def by blast+
  from g have ne: "0 < m" "0 < n"
    by (simp_all add: m_def n_def)
  have pm: "length pm = m" "\<forall>r \<in> set pm. length r = n" "pm \<noteq> []"
    using rows ne by (auto simp: pm_def m_def)
  have tr: "length tr = n" "\<forall>c \<in> set tr. length c = m"
    using zip_star_rect[OF pm(3) pm(2)] pm(1) by (simp_all add: tr_def)
  have inv0: "williams_inv m n 0 s0"
    using ne by (simp add: williams_inv_def s0_def)
  from williams_loop_inv[OF pm(1) pm(2) tr refl refl ne inv0, of 100]
  obtain s where s: "williams_loop 100 pm tr (map int [0..<n]) (map (\<lambda>k. - int k) [0..<m]) s0 = Inr s"
    and inv: "williams_inv m n 100 s" by auto
  from inv ne have "row_cum_payoff s \<noteq> []" "col_cum_payoff s \<noteq> []"
    by (auto simp: williams_inv_def)
  then obtain mx mn where mm: "py_max (row_cum_payoff s) = Inr mx" "py_min (col_cum_payoff s) = Inr mn"
    using py_max_in_set py_min_in_set by blast
  have "solve_williams game 100 =
      Inr (map (\<lambda>k. real k / real (100::nat)) (rowcnt s), map (\<lambda>k. real k / real (100::nat)) (colcnt s))"
    using s mm
    by (simp add: solve_williams_def Let_def pm_def[symmetric] tr_def[symmetric]
        pm(1) tr(1) s0_def[symmetric])
  moreover have "sum_list (map (\<lambda>k. real k / real (100::nat)) (rowcnt s)) = 1"
      "sum_list (map (\<lambda>k. real k / real (100::nat)) (colcnt s)) = 1"
    using inv by (simp_all add: sum_list_scaled williams_inv_def)
  moreover have "length (rowcnt s) = length game" "length (colcnt s) = length (hd game)"
    using inv by (simp_all add: williams_inv_def m_def n_def)
  ultimately show ?thesis
    by (simp add: list_all_iff)
qed

lemma first_index_less: "x \<in> set xs \<Longrightarrow> first_index x xs < length xs"
  by (induction xs) auto

lemma argmax_in_range: "xs \<noteq> [] \<Longrightarrow> \<exists>i. argmax xs = Inr i \<and> i < length xs"
  using py_max_in_set[of xs] by (auto simp: argmax_def first_index_less)

text \<open>
  Claim C10. For every payoff matrix with at least one row and one column (all rows of
  one length, as in a 2D array), \<^verbatim>\<open>solveGame\<close> with the default Williams method returns
  normally; the value \<open>v\<close> of the solution tuple is the entry \<^verbatim>\<open>game[i][j]\<close> at the two
  most-played pure strategies, hence between the least and the greatest entry of the
  matrix; and each of the two mixed-strategy vectors is nonnegative and sums to 1 (over
  the reals, exactly: the play counts of 100 iterations divided by 100).
\<close>

theorem solveGame_williams_sane:
  assumes "payoff_wf game"
  shows "\<exists>y z i j v. solveGame external game 0 = Inr (y, z, i, j, v)
     \<and> i < length game \<and> j < length (hd game) \<and> v = game ! i ! j
     \<and> Min (set (concat game)) \<le> v \<and> v \<le> Max (set (concat game))
     \<and> length y = length game \<and> list_all (\<lambda>p. 0 \<le> p) y \<and> sum_list y = 1
     \<and> length z = length (hd game) \<and> list_all (\<lambda>p. 0 \<le> p) z \<and> sum_list z = 1"
proof -
  from solve_williams_wf[OF assms] obtain y z where
    yz: "solve_williams game 100 = Inr (y, z)"
    and y: "length y = length game" "list_all (\<lambda>p. 0 \<le> p) y" "sum_list y = 1"
    and z: "length z = length (hd game)" "list_all (\<lambda>p. 0 \<le> p) z" "sum_list z = 1"
    by blast
  from assms have g: "game \<noteq> []" "hd game \<noteq> []"
    and rows: "\<forall>r \<in> set game. length r = length (hd game)"
    unfolding payoff_wf_def list_all_iff by blast+
  from g y z have "y \<noteq> []" "z \<noteq> []" by auto
  then obtain i j where i: "argmax y = Inr i" "i < length game"
    and j: "argmax z = Inr j" "j < length (hd game)"
    using argmax_in_range[of y] argmax_in_range[of z] y(1) z(1) by auto
  from i(2) have row: "game ! i \<in> set game" by simp
  with rows j(2) have jr: "j < length (game ! i)" by simp
  have c: "cell game (int i) (int j) = Inr (game ! i ! j)"
    using i(2) jr by (simp add: cell_def py_get_in_range)
  have v: "game ! i ! j \<in> set (concat game)"
    using row nth_mem[OF jr] by auto
  then have "Min (set (concat game)) \<le> game ! i ! j" "game ! i ! j \<le> Max (set (concat game))"
    by simp_all
  moreover have "solveGame external game 0 = Inr (y, z, i, j, game ! i ! j)"
    by (simp add: solveGame_def yz i(1) j(1) c)
  ultimately show ?thesis
    using y z i(2) j(2) by simp
qed

theorem solveGame_williams_sane_witness:
  "\<exists>y z i j v. solveGame (\<lambda>method game. Inl ValueError) [[1, 2], [3, 4]] 0 = Inr (y, z, i, j, v)
     \<and> 1 \<le> v \<and> v \<le> 4 \<and> sum_list y = 1 \<and> sum_list z = 1"
  using solveGame_williams_sane[of "[[1, 2], [3, 4]]" "\<lambda>method game. Inl ValueError"]
  by (simp add: payoff_wf_def) blast


section \<open>Properties of the propagation engine\<close>

lemma bind_guarded_elim:
  assumes "bind_e (guarded g chk) F = Inr B"
  obtains f where "f \<longrightarrow> g" "F f = Inr B"
  using assms by (cases g; cases chk) (auto simp: guarded_def)

lemma getNeighbors_nonneg:
  assumes "getNeighbors i m n env ofl = Inr B" "0 \<le> fst i" "0 \<le> snd i" "b \<in> set B"
  shows "0 \<le> fst b \<and> 0 \<le> fst (snd b)"
  using assms
  unfolding getNeighbors_def Let_def
  apply (elim bind_guarded_elim)
  apply (simp only: sum.inject)
  apply hypsubst
  apply (simp only: set_append Un_iff in_set_entry)
  apply (elim disjE conjE)
  apply simp_all
  done

lemma py_index_nonneg: "0 \<le> i \<Longrightarrow> py_index xs i = Inr j \<Longrightarrow> j = nat i \<and> j < length xs"
  by (auto simp: py_index_def split: if_splits)

lemma py_get_update:
  "0 \<le> i \<Longrightarrow> py_get (xs[j := x]) i = (if nat i = j \<and> j < length xs then Inr x else py_get xs i)"
  by (auto simp: py_get_def py_index_def)

lemma cell_set_read:
  assumes "cell_set g r c v = Inr g'" "0 \<le> r" "0 \<le> c" "0 \<le> r'" "0 \<le> c'"
  shows "cell g' r' c' = (if r' = r \<and> c' = c then Inr v else cell g r' c')"
proof -
  from assms(1) obtain j k where j: "py_index g r = Inr j" and k: "py_index (g ! j) c = Inr k"
    and g': "g' = g[j := (g ! j)[k := v]]"
    by (auto simp: cell_set_def bind_e_Inr_iff)
  from py_index_nonneg[OF assms(2) j] have j': "j = nat r" "nat r < length g" by auto
  from py_index_nonneg[OF assms(3) k] have k': "k = nat c" "nat c < length (g ! nat r)"
    by (auto simp: j')
  show ?thesis
  proof (cases "r' = r")
    case True
    have "py_get g r = Inr (g ! nat r)"
      using assms(2) j' by (simp add: py_get_def py_index_def)
    then show ?thesis
      using True assms(2,3,5) j' k'
      by (auto simp: cell_def g' py_get_update)
  next
    case False
    with assms(2,4) have "nat r' \<noteq> nat r" by auto
    with False assms(4) show ?thesis by (simp add: cell_def g' j' py_get_update)
  qed
qed

lemma fold_enqueue_queue:
  assumes "\<forall>q \<in> set (fst qh). P q" "\<forall>b \<in> set B. P (fst b, fst (snd b))"
  shows "\<forall>q \<in> set (fst (fold (enqueue bnd) B qh)). P q"
  using assms
proof (induction B arbitrary: qh)
  case Nil
  then show ?case by simp
next
  case (Cons b B)
  have "\<forall>q \<in> set (fst (enqueue bnd b qh)). P q"
    using Cons.prems by (auto simp: enqueue_def Let_def)
  with Cons show ?case by simp
qed

lemma visit_invariant:
  assumes v: "visit inp i st = Inr st'"
    and i: "nonneg_cell i" and G: "nonneg_cell (target (in_traveler inp))"
    and q: "\<forall>q \<in> set (st_queue st). nonneg_cell q"
    and t: "i = target (in_traveler inp)
            \<or> target_fixed (target (in_traveler inp)) (st_cost2go st) (st_action2go st)"
  shows "(\<forall>q \<in> set (st_queue st'). nonneg_cell q)
       \<and> target_fixed (target (in_traveler inp)) (st_cost2go st') (st_action2go st')"
proof -
  let ?G = "target (in_traveler inp)"
  from v obtain cost action c2g a2g B where
    new: "getNewCost (in_row inp) (in_col inp) (in_external inp) i ?G (in_occgrid inp)
            (abs (fst (lowerright (in_bounds inp)) - fst (upperleft (in_bounds inp))))
            (abs (snd (lowerright (in_bounds inp)) - snd (upperleft (in_bounds inp))))
            (st_cost2go st) (in_D_max inp) (in_traveler inp)
            (in_ugrids inp) (in_vgrids inp) (in_egrids inp) (in_wgrids inp) = Inr (cost, action)"
    and c2g: "cell_set (st_cost2go st) (fst i) (snd i) cost = Inr c2g"
    and a2g: "cell_set (st_action2go st) (fst i) (snd i) action = Inr a2g"
    and B: "getNeighbors i (shape0 (in_occgrid inp)) (shape1 (in_occgrid inp)) (in_occgrid inp) 1 = Inr B"
    and st': "st' = \<lparr>st_cost2go = c2g, st_action2go = a2g,
                    st_queue = fst (fold (enqueue (in_bounds inp)) B (st_queue st, st_history st)),
                    st_history = snd (fold (enqueue (in_bounds inp)) B (st_queue st, st_history st))\<rparr>"
    by (auto simp: visit_def Let_def bind_e_Inr_iff)
  have "\<forall>b \<in> set B. nonneg_cell (fst b, fst (snd b))"
    using getNeighbors_nonneg[OF B] i by (simp add: nonneg_cell_def)
  with q have queue: "\<forall>q \<in> set (st_queue st'). nonneg_cell q"
    unfolding st' using fold_enqueue_queue[of "(st_queue st, st_history st)" nonneg_cell B]
    by simp
  have rd1: "cell c2g (fst ?G) (snd ?G)
      = (if fst ?G = fst i \<and> snd ?G = snd i then Inr cost else cell (st_cost2go st) (fst ?G) (snd ?G))"
    using cell_set_read[OF c2g] i G by (simp add: nonneg_cell_def)
  have rd2: "cell a2g (fst ?G) (snd ?G)
      = (if fst ?G = fst i \<and> snd ?G = snd i then Inr action else cell (st_action2go st) (fst ?G) (snd ?G))"
    using cell_set_read[OF a2g] i G by (simp add: nonneg_cell_def)
  have "target_fixed ?G c2g a2g"
  proof (cases "i = ?G")
    case True
    with new have "cost = 0" "action = ''*''" by (simp_all add: getNewCost_def)
    with True show ?thesis by (simp add: target_fixed_def rd1 rd2)
  next
    case False
    then have "\<not> (fst ?G = fst i \<and> snd ?G = snd i)" by (auto simp: prod_eq_iff)
    with t False show ?thesis by (auto simp: target_fixed_def rd1 rd2)
  qed
  with queue show ?thesis by (simp add: st')
qed

lemma while_visit_invariant:
  "while_visit inp st = Inr st' \<Longrightarrow> nonneg_cell (target (in_traveler inp)) \<Longrightarrow>
   \<forall>q \<in> set (st_queue st). nonneg_cell q \<Longrightarrow>
   (\<exists>rest. st_queue st = target (in_traveler inp) # rest)
     \<or> target_fixed (target (in_traveler inp)) (st_cost2go st) (st_action2go st) \<Longrightarrow>
   target_fixed (target (in_traveler inp)) (st_cost2go st') (st_action2go st')"
proof (induction inp st rule: while_visit.induct)
  case (1 inp st)
  show ?case
  proof (cases "st_queue st")
    case Nil
    with "1.prems" show ?thesis by simp
  next
    case (Cons i rest)
    with "1.prems"(1) obtain st1 where v: "visit inp i (st\<lparr>st_queue := rest\<rparr>) = Inr st1"
      and w: "while_visit inp st1 = Inr st'"
      by (auto split: sum.splits)
    from "1.prems"(3) Cons have i: "nonneg_cell i" and q: "\<forall>q \<in> set rest. nonneg_cell q"
      by simp_all
    from "1.prems"(4) Cons have t: "i = target (in_traveler inp)
        \<or> target_fixed (target (in_traveler inp)) (st_cost2go st) (st_action2go st)"
      by auto
    from visit_invariant[OF v i "1.prems"(2)] q t
    have inv1: "\<forall>q \<in> set (st_queue st1). nonneg_cell q"
      "target_fixed (target (in_traveler inp)) (st_cost2go st1) (st_action2go st1)"
      by simp_all
    from "1.IH"[OF Cons v w "1.prems"(2) inv1(1)] inv1(2) show ?thesis by simp
  qed
qed

lemma sweep_target_fixed:
  assumes "sweep inp grids = Inr grids'" "nonneg_cell (target (in_traveler inp))"
  shows "target_fixed (target (in_traveler inp)) (fst grids') (snd grids')"
proof -
  from assms(1) obtain st' where
    w: "while_visit inp \<lparr>st_cost2go = fst grids, st_action2go = snd grids,
          st_queue = [target (in_traveler inp)], st_history = {}\<rparr> = Inr st'"
    and g: "grids' = (st_cost2go st', st_action2go st')"
    by (auto simp: sweep_def bind_e_Inr_iff)
  from while_visit_invariant[OF w assms(2)] assms(2) show ?thesis
    by (simp add: g)
qed

lemma sweeps_target_fixed:
  assumes "sweeps k inp grids = Inr grids'" "nonneg_cell (target (in_traveler inp))"
    and "0 < k \<or> target_fixed (target (in_traveler inp)) (fst grids) (snd grids)"
  shows "target_fixed (target (in_traveler inp)) (fst grids') (snd grids')"
  using assms
proof (induction k arbitrary: grids)
  case 0
  then show ?case by simp
next
  case (Suc k)
  from Suc.prems(1) obtain g1 where s: "sweep inp grids = Inr g1" and r: "sweeps k inp g1 = Inr grids'"
    by (auto simp: bind_e_Inr_iff)
  from sweep_target_fixed[OF s Suc.prems(2)] Suc.IH[OF r Suc.prems(2)] show ?case by simp
qed

text \<open>
  Claim C6. Whenever \<^verbatim>\<open>getCost2go\<close> completes a positive number of sweeps (whatever the
  iteration budget, given or defaulted) for a target with nonnegative row and column,
  the target's entry of the returned cost-to-go grid is exactly 0 and its entry of the
  action grid is \<^verbatim>\<open>"*"\<close>. The proof is an invariant of the worklist loop: every visit
  of the target writes 0 and \<^verbatim>\<open>"*"\<close>, and a visit of any other cell writes elsewhere.
\<close>

theorem getCost2go_target_fixed_point:
  assumes run: "getCost2go external trav occgrid ugrids vgrids egrids wgrids (Some bnd) iterations
                  = Inr (c2g, w2g, a2g, history)"
    and budget: "0 < iteration_budget bnd iterations"
    and G: "0 \<le> fst (target trav)" "0 \<le> snd (target trav)"
  shows "cell c2g (fst (target trav)) (snd (target trav)) = Inr 0
       \<and> cell a2g (fst (target trav)) (snd (target trav)) = Inr ''*''"
proof -
  from run obtain k inp g0 where
    s: "sweeps k inp g0 = Inr (c2g, a2g)" and k: "k = nat (iteration_budget bnd iterations)"
    and t: "in_traveler inp = trav"
    by (auto simp: getCost2go_def Let_def bind_e_Inr_iff iteration_budget_def)
  from budget k have "0 < k" by simp
  with sweeps_target_fixed[OF s] G t show ?thesis
    by (simp add: nonneg_cell_def target_fixed_def)
qed

text \<open>The run on the corridor grid: both sweeps complete, the cell \<open>(1, 0)\<close> is pruned and
  the target is written twice in each sweep.\<close>

lemma corridor_run:
  "getCost2go external corridor_traveler [[1, 1], [0, 1], [0, 1]] [] [] [] []
     (Some \<lparr>upperleft = (0, -1), lowerright = (3, 1)\<rparr>) (Some 2)
   = Inr ([[6 * (sqrt 2 * 10) * 100000000000 * 10000000000, 6 * (sqrt 2 * 10) * 100000000000 * 10000000000],
           [6 * (sqrt 2 * 10) * 100000000000 * 10000000000, 6 * (sqrt 2 * 10) * 100000000000 * 10000000000],
           [0, 6 * (sqrt 2 * 10) * 100000000000 * 10000000000]],
          [[0, 0], [0, 0], [0, 0]],
          [[''-'', ''-''], [''-'', ''-''], [''*'', ''-'']], None)"
  by (simp add: getCost2go_def Let_def shape0_def shape1_def eval_nat_numeral sweep_def
        while_visit.simps visit_def getNewCost_def surrounded_def is_dmax_def and_e_def
        cell_def cell_set_def py_get_def py_index_def getNeighbors_def guarded_def free_at_def
        entry_def enqueue_def within_bounds_def corridor_traveler_def)

theorem getCost2go_target_fixed_point_witness:
  "\<exists>c2g w2g a2g history.
     getCost2go (\<lambda>method game. Inl ValueError) corridor_traveler [[1, 1], [0, 1], [0, 1]] [] [] [] []
       (Some \<lparr>upperleft = (0, -1), lowerright = (3, 1)\<rparr>) (Some 2) = Inr (c2g, w2g, a2g, history)
     \<and> 0 < iteration_budget \<lparr>upperleft = (0, -1), lowerright = (3, 1)\<rparr> (Some 2)
     \<and> cell c2g 2 0 = Inr 0 \<and> cell a2g 2 0 = Inr ''*''"
  using getCost2go_target_fixed_point[OF corridor_run[of "\<lambda>method game. Inl ValueError"]]
    corridor_run[of "\<lambda>method game. Inl ValueError"]
  by (simp add: iteration_budget_def corridor_traveler_def)

end
